theory Spec2Isabelle
  imports Main
begin

section \<open>Python strings\<close>

text \<open>
  A Python \<open>str\<close> is modelled as a \<open>string\<close>, one \<open>char\<close> per code point; the model
  covers the code points below 256. \<open>is_space\<close> lists the code points of that range
  that \<open>str.strip()\<close> removes and that \<open>int()\<close> ignores around a literal.
\<close>

definition is_space :: "char \<Rightarrow> bool" where
  "is_space c = (c \<in> set [CHR 0x09, CHR 0x0A, CHR 0x0B, CHR 0x0C, CHR 0x0D,
                             CHR 0x1C, CHR 0x1D, CHR 0x1E, CHR 0x1F, CHR 0x20,
                             CHR 0x85, CHR 0xA0])"

definition strip :: "string \<Rightarrow> string" where
  "strip s = rev (dropWhile is_space (rev (dropWhile is_space s)))"

text \<open>\<open>s.split(d)\<close> for a one-character separator: never empty, one more piece than separators.\<close>

fun split_on :: "char \<Rightarrow> string \<Rightarrow> string list" where
  "split_on d [] = [[]]"
| "split_on d (c # cs) =
     (if c = d then [] # split_on d cs
      else (case split_on d cs of [] \<Rightarrow> [[c]] | w # ws \<Rightarrow> (c # w) # ws))"

text \<open>\<open>sep.join(xs)\<close>.\<close>

fun join :: "string \<Rightarrow> string list \<Rightarrow> string" where
  "join sep [] = []"
| "join sep [x] = x"
| "join sep (x # y # ys) = x @ sep @ join sep (y # ys)"

text \<open>\<open>str.lower()\<close> on the modelled range: ASCII and Latin-1 capitals.\<close>

definition lower_char :: "char \<Rightarrow> char" where
  "lower_char c =
     (let n = (of_char c :: nat)
      in if (65 \<le> n \<and> n \<le> 90) \<or> (192 \<le> n \<and> n \<le> 222 \<and> n \<noteq> 215)
         then char_of (n + 32) else c)"

definition lower :: "string \<Rightarrow> string" where
  "lower s = map lower_char s"

text \<open>\<open>str(n)\<close> for a non-negative and for an arbitrary integer.\<close>

fun show_nat :: "nat \<Rightarrow> string" where
  "show_nat n =
     (if n < 10 then [''0123456789'' ! n]
      else show_nat (n div 10) @ [''0123456789'' ! (n mod 10)])"

declare show_nat.simps [simp del]

definition show_int :: "int \<Rightarrow> string" where
  "show_int i = (if i < 0 then CHR ''-'' # show_nat (nat (- i)) else show_nat (nat i))"

text \<open>
  \<open>repr(s)\<close>: the quote is \<open>"\<close> when the string holds a \<open>'\<close> and no \<open>"\<close>; the quote
  and the backslash are escaped, tab, newline and carriage return have their letters, and
  the other non-printable code points are written \<open>\xNN\<close>.
\<close>

definition hex2 :: "nat \<Rightarrow> string" where
  "hex2 n = [''0123456789abcdef'' ! (n div 16 mod 16), ''0123456789abcdef'' ! (n mod 16)]"

definition printable :: "char \<Rightarrow> bool" where
  "printable c =
     (let n = (of_char c :: nat)
      in (32 \<le> n \<and> n < 127) \<or> (161 \<le> n \<and> n \<noteq> 173))"

definition repr_char :: "char \<Rightarrow> char \<Rightarrow> string" where
  "repr_char quote c =
     (if c = quote \<or> c = CHR 0x5C then [CHR 0x5C, c]
      else if c = CHR 0x09 then [CHR 0x5C, CHR ''t'']
      else if c = CHR 0x0A then [CHR 0x5C, CHR ''n'']
      else if c = CHR 0x0D then [CHR 0x5C, CHR ''r'']
      else if printable c then [c]
      else [CHR 0x5C, CHR ''x''] @ hex2 (of_char c))"

definition py_repr :: "string \<Rightarrow> string" where
  "py_repr s =
     (let quote = (if CHR 0x27 \<in> set s \<and> CHR 0x22 \<notin> set s then CHR 0x22 else CHR 0x27)
      in [quote] @ concat (map (repr_char quote) s) @ [quote])"

text \<open>
  \<open>int(s)\<close> in base 10: surrounding whitespace is ignored, one sign is allowed, the
  digits may be grouped by single underscores. A failure is the \<open>ValueError\<close>, carried
  as its message. The whitespace \<open>int\<close> ignores is narrower than what \<open>strip\<close> removes:
  the separators \<open>0x1C\<close> to \<open>0x1F\<close> are not part of it. The message of a malformed
  literal shows at most 200 characters of the \<open>repr\<close>. The conversion reads the digits
  and underscores the literal begins with, and refuses more than 4300 digits before it
  looks at what follows them.
\<close>

definition is_int_space :: "char \<Rightarrow> bool" where
  "is_int_space c = (c \<in> set [CHR 0x09, CHR 0x0A, CHR 0x0B, CHR 0x0C, CHR 0x0D, CHR 0x20,
                                 CHR 0x85, CHR 0xA0])"

definition int_strip :: "string \<Rightarrow> string" where
  "int_strip s = rev (dropWhile is_int_space (rev (dropWhile is_int_space s)))"

definition is_digit :: "char \<Rightarrow> bool" where
  "is_digit c = (c \<in> set ''0123456789'')"

definition digit_val :: "char \<Rightarrow> nat" where
  "digit_val c = of_char c - 48"

definition digits_ok :: "string \<Rightarrow> bool" where
  "digits_ok body = list_all (\<lambda>g. g \<noteq> [] \<and> list_all is_digit g) (split_on CHR ''_'' body)"

definition digits_val :: "string \<Rightarrow> nat" where
  "digits_val body = foldl (\<lambda>acc c. 10 * acc + digit_val c) 0 (filter is_digit body)"

definition py_int :: "string \<Rightarrow> string + int" where
  "py_int s =
     (let t = int_strip s;
          neg = (t \<noteq> [] \<and> hd t = CHR ''-'');
          body = (if t \<noteq> [] \<and> (hd t = CHR ''-'' \<or> hd t = CHR ''+'') then tl t else t);
          run = takeWhile (\<lambda>c. is_digit c \<or> c = CHR ''_'') body
      in if \<not> digits_ok run
         then Inl (''invalid literal for int() with base 10: '' @ take 200 (py_repr s))
         else if 4300 < length (filter is_digit run)
         then Inl (''Exceeds the limit (4300 digits) for integer string conversion: value has ''
                     @ show_nat (length (filter is_digit run))
                     @ '' digits; use sys.set_int_max_str_digits() to increase the limit'')
         else if run \<noteq> body
         then Inl (''invalid literal for int() with base 10: '' @ take 200 (py_repr s))
         else Inr (if neg then - int (digits_val body) else int (digits_val body)))"

section \<open>The Book model\<close>

record book =
  title :: string
  author :: string
  isbn :: string
  publisher :: string
  publication_year :: "int option"
  category :: string
  quantity :: int
  available_quantity :: int

text \<open>
  \<open>Book.reserve_copy\<close> and \<open>Book.return_copy\<close> change the object and save it; the model
  returns the method's result with the changed book.
\<close>

definition reserve_copy :: "book \<Rightarrow> bool \<times> book" where
  "reserve_copy b =
     (if available_quantity b > 0
      then (True, b\<lparr>available_quantity := available_quantity b - 1\<rparr>)
      else (False, b))"

definition return_copy :: "book \<Rightarrow> bool \<times> book" where
  "return_copy b =
     (if available_quantity b < quantity b
      then (True, b\<lparr>available_quantity := available_quantity b + 1\<rparr>)
      else (False, b))"

datatype copy_call = Reserve | Return

fun call_copy :: "copy_call \<Rightarrow> book \<Rightarrow> book" where
  "call_copy Reserve b = snd (reserve_copy b)"
| "call_copy Return b = snd (return_copy b)"

text \<open>A sequence of calls, first call first.\<close>

definition run_calls :: "copy_call list \<Rightarrow> book \<Rightarrow> book" where
  "run_calls cs b = foldl (\<lambda>b c. call_copy c b) b cs"

definition in_stock_range :: "book \<Rightarrow> bool" where
  "in_stock_range b = (0 \<le> available_quantity b \<and> available_quantity b \<le> quantity b)"

section \<open>The persisted collections and the import session\<close>

record library_user =
  full_name :: string
  email :: string
  phone :: string
  address :: string
  registration_number :: string
  is_active :: bool

text \<open>
  A table is the list of its rows in insertion order. \<open>objects.filter(f=v).exists()\<close>
  asks whether some row has the value; \<open>objects.create\<close> appends a row. The column
  constraints of the database (lengths, signs, integer range) are not in the repository:
  they are the parameter \<open>accepts\<close>. A row the database refuses raises a database error,
  which no handler of the import catches. \<open>crash\<close> lists the exceptions that leave an
  import uncaught.
\<close>

datatype crash = UnicodeDecodeError | DatabaseError | AttributeError | TypeError

definition isbn_exists :: "book list \<Rightarrow> string \<Rightarrow> bool" where
  "isbn_exists tbl v = list_ex (\<lambda>b. isbn b = v) tbl"

definition registration_exists :: "library_user list \<Rightarrow> string \<Rightarrow> bool" where
  "registration_exists tbl v = list_ex (\<lambda>u. registration_number u = v) tbl"

definition email_exists :: "library_user list \<Rightarrow> string \<Rightarrow> bool" where
  "email_exists tbl v = list_ex (\<lambda>u. email u = v) tbl"

definition objects_create :: "('r \<Rightarrow> bool) \<Rightarrow> 'r list \<Rightarrow> 'r \<Rightarrow> crash + 'r list" where
  "objects_create accepts tbl r = (if accepts r then Inr (tbl @ [r]) else Inl DatabaseError)"

text \<open>
  The variables of one import: the table inside the transaction, \<open>created_count\<close> and
  \<open>errors\<close>. The returned dictionary is the \<open>outcome\<close>.
\<close>

record 'r session =
  db :: "'r list"
  created_count :: nat
  errs :: "string list"

record outcome =
  success :: bool
  created :: nat
  errors :: "string list"

definition start :: "'r list \<Rightarrow> 'r session" where
  "start tbl = \<lparr>db = tbl, created_count = 0, errs = []\<rparr>"

definition add_error :: "string \<Rightarrow> 'r session \<Rightarrow> 'r session" where
  "add_error msg s = s\<lparr>errs := errs s @ [msg]\<rparr>"

definition persist :: "('r \<Rightarrow> bool) \<Rightarrow> 'r \<Rightarrow> 'r session \<Rightarrow> crash + 'r session" where
  "persist accepts r s =
     (case objects_create accepts (db s) r of
        Inl e \<Rightarrow> Inl e
      | Inr tbl \<Rightarrow> Inr (s\<lparr>db := tbl, created_count := created_count s + 1\<rparr>))"

definition failed :: "string list \<Rightarrow> outcome" where
  "failed msgs = \<lparr>success = False, created = 0, errors = msgs\<rparr>"

definition report :: "'r session \<Rightarrow> 'r list \<times> outcome" where
  "report s =
     (db s, \<lparr>success = created_count s > 0, created = created_count s, errors = errs s\<rparr>)"

text \<open>
  \<open>for idx, row in enumerate(rows, start=idx)\<close> (and \<open>df.iterrows()\<close> from 0): the body
  runs on each row in order; an exception that leaves the body ends the loop, and the
  transaction around the loop is rolled back, so the caller's table stays as it was.
\<close>

fun for_rows ::
  "(nat \<Rightarrow> 'a \<Rightarrow> 's \<Rightarrow> crash + 's) \<Rightarrow> nat \<Rightarrow> 'a list \<Rightarrow> 's \<Rightarrow> crash + 's" where
  "for_rows body idx [] s = Inr s"
| "for_rows body idx (x # xs) s =
     (case body idx x s of Inl e \<Rightarrow> Inl e | Inr s' \<Rightarrow> for_rows body (Suc idx) xs s')"

text \<open>
  Inside the \<open>try\<close> of a row, a \<open>ValueError\<close>, \<open>IndexError\<close> or \<open>KeyError\<close> is a value
  \<open>Inl msg\<close> with \<open>msg = str(e)\<close>; \<open>bind_err\<close> passes the first one on.
\<close>

definition bind_err :: "string + 'a \<Rightarrow> ('a \<Rightarrow> string + 'b) \<Rightarrow> string + 'b" where
  "bind_err m f = (case m of Inl msg \<Rightarrow> Inl msg | Inr v \<Rightarrow> f v)"

definition py_index :: "'a list \<Rightarrow> nat \<Rightarrow> string + 'a" where
  "py_index xs i = (if i < length xs then Inr (xs ! i) else Inl ''list index out of range'')"

text \<open>\<open>lines = content.strip().split('\n')\<close>.\<close>

definition file_lines :: "string \<Rightarrow> string list" where
  "file_lines content = split_on CHR 0x0A (strip content)"

section \<open>BookFileProcessor: text files\<close>

definition book_expected_fields :: "string list" where
  "book_expected_fields =
     [''title'', ''author'', ''isbn'', ''publisher'', ''publication_year'', ''category'',
      ''quantity'']"

text \<open>The \<open>data\<close> dictionary of a text row, its entries evaluated in the source's order.\<close>

definition book_txt_data :: "string list \<Rightarrow> string + book" where
  "book_txt_data parts =
     bind_err (py_index parts 0) (\<lambda>f0.
     bind_err (py_index parts 1) (\<lambda>f1.
     bind_err (py_index parts 2) (\<lambda>f2.
     bind_err (py_index parts 3) (\<lambda>f3.
     bind_err (py_index parts 4) (\<lambda>f4.
     bind_err (if strip f4 \<noteq> [] then map_sum id Some (py_int (strip f4)) else Inr None)
       (\<lambda>year.
     bind_err (py_index parts 5) (\<lambda>f5.
     bind_err (py_index parts 6) (\<lambda>f6.
     bind_err (py_int (strip f6)) (\<lambda>q.
     bind_err (py_int (strip f6)) (\<lambda>aq.
       Inr \<lparr>title = strip f0, author = strip f1, isbn = strip f2, publisher = strip f3,
            publication_year = year, category = strip f5, quantity = q,
            available_quantity = aq\<rparr>))))))))))"

definition txt_count_error :: "nat \<Rightarrow> nat \<Rightarrow> nat \<Rightarrow> string" where
  "txt_count_error idx k m =
     ''Line '' @ show_nat idx @ '': Expected '' @ show_nat k @ '' fields, got '' @ show_nat m"

definition book_txt_row ::
  "(book \<Rightarrow> bool) \<Rightarrow> nat \<Rightarrow> string \<Rightarrow> book session \<Rightarrow> crash + book session" where
  "book_txt_row accepts idx line s =
     (if strip line = [] then Inr s
      else
        let parts = split_on CHR ''|'' (strip line)
        in if length parts \<noteq> length book_expected_fields
           then Inr (add_error
                  (txt_count_error idx (length book_expected_fields) (length parts)) s)
           else
             (case book_txt_data parts of
                Inl msg \<Rightarrow> Inr (add_error (''Line '' @ show_nat idx @ '': '' @ msg) s)
              | Inr data \<Rightarrow>
                  if isbn_exists (db s) (isbn data)
                  then Inr (add_error
                         (''Line '' @ show_nat idx @ '': Book with ISBN '' @ isbn data
                            @ '' already exists'') s)
                  else persist accepts data s))"

text \<open>
  \<open>file\<close> is \<open>file.read().decode('utf-8')\<close>: \<open>None\<close> when the bytes are not UTF-8, which
  raises outside every handler.
\<close>

definition book_process_txt_file ::
  "(book \<Rightarrow> bool) \<Rightarrow> book list \<Rightarrow> string option \<Rightarrow> crash + book list \<times> outcome" where
  "book_process_txt_file accepts tbl file =
     (case file of
        None \<Rightarrow> Inl UnicodeDecodeError
      | Some content \<Rightarrow>
          let lines = file_lines content
          in if length lines < 2
             then Inr (tbl, failed [''File must contain at least a header and one data row''])
             else if split_on CHR ''|'' (strip (hd lines)) \<noteq> book_expected_fields
             then Inr (tbl, failed
                    [''Invalid header. Expected: '' @ join ''|'' book_expected_fields])
             else
               (case for_rows (book_txt_row accepts) 2 (tl lines) (start tbl) of
                  Inl e \<Rightarrow> Inl e
                | Inr s \<Rightarrow> Inr (report s)))"

section \<open>UserFileProcessor: text files\<close>

definition user_expected_fields :: "string list" where
  "user_expected_fields =
     [''full_name'', ''email'', ''phone'', ''address'', ''registration_number'',
      ''is_active'']"

definition user_txt_data :: "string list \<Rightarrow> string + library_user" where
  "user_txt_data parts =
     bind_err (py_index parts 0) (\<lambda>f0.
     bind_err (py_index parts 1) (\<lambda>f1.
     bind_err (py_index parts 2) (\<lambda>f2.
     bind_err (py_index parts 3) (\<lambda>f3.
     bind_err (py_index parts 4) (\<lambda>f4.
     bind_err (py_index parts 5) (\<lambda>f5.
       Inr \<lparr>full_name = strip f0, email = strip f1, phone = strip f2, address = strip f3,
            registration_number = strip f4,
            is_active = (lower (strip f5) \<in> set [''true'', ''1'', ''yes''])\<rparr>))))))"

text \<open>The two uniqueness checks and the creation that end a user row, text or tabular.\<close>

definition user_check_create ::
  "(library_user \<Rightarrow> bool) \<Rightarrow> string \<Rightarrow> library_user \<Rightarrow> library_user session \<Rightarrow>
     crash + library_user session" where
  "user_check_create accepts place data s =
     (if registration_exists (db s) (registration_number data)
      then Inr (add_error
             (place @ '': User with registration '' @ registration_number data
                @ '' already exists'') s)
      else if email_exists (db s) (email data)
      then Inr (add_error
             (place @ '': User with email '' @ email data @ '' already exists'') s)
      else persist accepts data s)"

definition user_txt_row ::
  "(library_user \<Rightarrow> bool) \<Rightarrow> nat \<Rightarrow> string \<Rightarrow> library_user session \<Rightarrow>
     crash + library_user session" where
  "user_txt_row accepts idx line s =
     (if strip line = [] then Inr s
      else
        let parts = split_on CHR ''|'' (strip line)
        in if length parts \<noteq> length user_expected_fields
           then Inr (add_error
                  (txt_count_error idx (length user_expected_fields) (length parts)) s)
           else
             (case user_txt_data parts of
                Inl msg \<Rightarrow> Inr (add_error (''Line '' @ show_nat idx @ '': '' @ msg) s)
              | Inr data \<Rightarrow> user_check_create accepts (''Line '' @ show_nat idx) data s))"

definition user_process_txt_file ::
  "(library_user \<Rightarrow> bool) \<Rightarrow> library_user list \<Rightarrow> string option \<Rightarrow>
     crash + library_user list \<times> outcome" where
  "user_process_txt_file accepts tbl file =
     (case file of
        None \<Rightarrow> Inl UnicodeDecodeError
      | Some content \<Rightarrow>
          let lines = file_lines content
          in if length lines < 2
             then Inr (tbl, failed [''File must contain at least a header and one data row''])
             else if split_on CHR ''|'' (strip (hd lines)) \<noteq> user_expected_fields
             then Inr (tbl, failed
                    [''Invalid header. Expected: '' @ join ''|'' user_expected_fields])
             else
               (case for_rows (user_txt_row accepts) 2 (tl lines) (start tbl) of
                  Inl e \<Rightarrow> Inl e
                | Inr s \<Rightarrow> Inr (report s)))"

section \<open>Spreadsheets\<close>

text \<open>
  \<open>pd.read_excel\<close> gives a table of named columns. A cell is missing (\<open>NaN\<close>, which is
  what the reader gives for an empty cell), a text, an integer or a boolean; the model
  does not cover fractional numbers and dates. The four functions are \<open>pd.isna\<close>,
  \<open>str\<close>, \<open>int\<close> and \<open>bool\<close> on a cell, the only operations the import applies.
\<close>

datatype cell = NaN | Text string | Num int | Flag bool

record frame =
  columns :: "string list"
  rows :: "cell list list"

definition isna :: "cell \<Rightarrow> bool" where
  "isna c = (c = NaN)"

fun cell_str :: "cell \<Rightarrow> string" where
  "cell_str NaN = ''nan''"
| "cell_str (Text t) = t"
| "cell_str (Num n) = show_int n"
| "cell_str (Flag b) = (if b then ''True'' else ''False'')"

fun cell_int :: "cell \<Rightarrow> string + int" where
  "cell_int NaN = Inl ''cannot convert float NaN to integer''"
| "cell_int (Text t) = py_int t"
| "cell_int (Num n) = Inr n"
| "cell_int (Flag b) = Inr (if b then 1 else 0)"

fun cell_bool :: "cell \<Rightarrow> bool" where
  "cell_bool NaN = True"
| "cell_bool (Text t) = (t \<noteq> [])"
| "cell_bool (Num n) = (n \<noteq> 0)"
| "cell_bool (Flag b) = b"

text \<open>
  Two things are decided by Python and pandas and not by the repository; the model takes
  them as the fields of a parameter. \<open>series_str idx name cs\<close> is the text \<open>str\<close> gives
  for the \<open>Series\<close> that \<open>row[name]\<close> is in row \<open>idx\<close> when several columns carry the
  label \<open>name\<close>, with \<open>cs\<close> their cells; \<open>set_order\<close> is the order in which a set of
  strings is iterated.
\<close>

record runtime =
  series_str :: "nat \<Rightarrow> string \<Rightarrow> cell list \<Rightarrow> string"
  set_order :: "string list \<Rightarrow> string list"

text \<open>
  \<open>row[name]\<close>: the cell under the column of that label; the \<open>Series\<close> of the cells
  under them when several columns carry the label, which happens when two headers differ
  only in case or surrounding blanks; a \<open>KeyError\<close> (whose message is the \<open>repr\<close> of the
  label) when there is none.
\<close>

datatype lookup = Scalar cell | Series "cell list"

definition row_get :: "string list \<Rightarrow> cell list \<Rightarrow> string \<Rightarrow> string + lookup" where
  "row_get cols row name =
     (case map snd (filter (\<lambda>kv. fst kv = name) (zip cols row)) of
        [] \<Rightarrow> Inl (py_repr name)
      | [c] \<Rightarrow> Inr (Scalar c)
      | cs \<Rightarrow> Inr (Series cs))"

text \<open>
  The truth value of \<open>pd.isna(x)\<close> or \<open>pd.notna(x)\<close>, as \<open>or\<close>, \<open>if\<close> and the
  conditional expression take it: of a \<open>Series\<close> it is a \<open>ValueError\<close>.
\<close>

definition ambiguous :: string where
  "ambiguous =
     ''The truth value of a Series is ambiguous. Use a.empty, a.bool(), a.item(), a.any() or a.all().''"

fun truth :: "(cell \<Rightarrow> bool) \<Rightarrow> lookup \<Rightarrow> string + bool" where
  "truth f (Scalar c) = Inr (f c)"
| "truth f (Series cs) = Inl ambiguous"

text \<open>\<open>str(x)\<close> of what \<open>row[name]\<close> gave in row \<open>idx\<close>.\<close>

fun lookup_str :: "runtime \<Rightarrow> nat \<Rightarrow> string \<Rightarrow> lookup \<Rightarrow> string" where
  "lookup_str rt idx name (Scalar c) = cell_str c"
| "lookup_str rt idx name (Series cs) = series_str rt idx name cs"

text \<open>
  \<open>int(x)\<close>: of a cell a value or a \<open>ValueError\<close>, which the row catches; of a \<open>Series\<close>
  of several cells a \<open>TypeError\<close>, which it does not.
\<close>

fun lookup_int :: "lookup \<Rightarrow> crash + (string + int)" where
  "lookup_int (Scalar c) = Inr (cell_int c)"
| "lookup_int (Series cs) = Inl TypeError"

text \<open>\<open>df.columns.str.lower().str.strip()\<close>.\<close>

definition normalize_columns :: "string list \<Rightarrow> string list" where
  "normalize_columns cols = map (\<lambda>c. strip (lower c)) cols"

text \<open>
  \<open>set(expected) - set(df.columns)\<close>, its names listed in the order of \<open>expected\<close>; the
  message joins them in the order \<open>set_order\<close> gives.
\<close>

definition missing_columns :: "string list \<Rightarrow> string list \<Rightarrow> string list" where
  "missing_columns expected cols = filter (\<lambda>c. c \<notin> set cols) expected"

text \<open>\<open>str(row[name]).strip() if pd.notna(row[name]) else ''\<close>.\<close>

definition text_or_empty ::
  "runtime \<Rightarrow> string list \<Rightarrow> nat \<Rightarrow> cell list \<Rightarrow> string \<Rightarrow> string + string" where
  "text_or_empty rt cols idx row name =
     bind_err (row_get cols row name) (\<lambda>x.
     bind_err (truth (\<lambda>c. \<not> isna c) x) (\<lambda>present.
       if present
       then bind_err (row_get cols row name) (\<lambda>x'. Inr (strip (lookup_str rt idx name x')))
       else Inr []))"

text \<open>\<open>str(row[name]).strip()\<close>.\<close>

definition text_of ::
  "runtime \<Rightarrow> string list \<Rightarrow> nat \<Rightarrow> cell list \<Rightarrow> string \<Rightarrow> string + string" where
  "text_of rt cols idx row name =
     bind_err (row_get cols row name) (\<lambda>x. Inr (strip (lookup_str rt idx name x)))"

section \<open>BookFileProcessor: spreadsheets\<close>

text \<open>
  The body of a row's \<open>try\<close> has three ends: an exception that leaves the import
  (\<open>Inl\<close>), a caught exception with its message (\<open>Inr (Inl msg)\<close>), or a value.
  \<open>bind_try\<close> passes the first two on.
\<close>

definition bind_try ::
  "crash + (string + 'a) \<Rightarrow> ('a \<Rightarrow> crash + (string + 'b)) \<Rightarrow> crash + (string + 'b)" where
  "bind_try m f =
     (case m of Inl e \<Rightarrow> Inl e | Inr (Inl msg) \<Rightarrow> Inr (Inl msg) | Inr (Inr v) \<Rightarrow> f v)"

text \<open>\<open>int(row[name]) if pd.notna(row[name]) else None\<close> and \<open>int(row[name])\<close>.\<close>

definition int_or_none ::
  "string list \<Rightarrow> cell list \<Rightarrow> string \<Rightarrow> crash + (string + int option)" where
  "int_or_none cols row name =
     bind_try (Inr (row_get cols row name)) (\<lambda>x.
     bind_try (Inr (truth (\<lambda>c. \<not> isna c) x)) (\<lambda>present.
       if present
       then bind_try (Inr (row_get cols row name)) (\<lambda>x'.
            bind_try (lookup_int x') (\<lambda>n. Inr (Inr (Some n))))
       else Inr (Inr None)))"

definition int_of :: "string list \<Rightarrow> cell list \<Rightarrow> string \<Rightarrow> crash + (string + int)" where
  "int_of cols row name = bind_try (Inr (row_get cols row name)) lookup_int"

definition book_excel_data ::
  "runtime \<Rightarrow> string list \<Rightarrow> nat \<Rightarrow> cell list \<Rightarrow> crash + (string + book)" where
  "book_excel_data rt cols idx row =
     bind_try (Inr (text_of rt cols idx row ''title'')) (\<lambda>t.
     bind_try (Inr (text_of rt cols idx row ''author'')) (\<lambda>a.
     bind_try (Inr (text_of rt cols idx row ''isbn'')) (\<lambda>i.
     bind_try (Inr (text_or_empty rt cols idx row ''publisher'')) (\<lambda>p.
     bind_try (int_or_none cols row ''publication_year'') (\<lambda>year.
     bind_try (Inr (text_or_empty rt cols idx row ''category'')) (\<lambda>g.
     bind_try (int_of cols row ''quantity'') (\<lambda>q.
     bind_try (int_of cols row ''quantity'') (\<lambda>aq.
       Inr (Inr \<lparr>title = t, author = a, isbn = i, publisher = p, publication_year = year,
                 category = g, quantity = q, available_quantity = aq\<rparr>)))))))))"

text \<open>
  \<open>if pd.isna(row[a]) or pd.isna(row[b])\<close>: the second lookup only when the first cell
  is not missing.
\<close>

definition either_missing :: "string list \<Rightarrow> cell list \<Rightarrow> string \<Rightarrow> string \<Rightarrow> string + bool" where
  "either_missing cols row a b =
     bind_err (row_get cols row a) (\<lambda>x.
     bind_err (truth isna x) (\<lambda>missing.
       if missing then Inr True
       else bind_err (row_get cols row b) (\<lambda>y. truth isna y)))"

definition book_excel_row ::
  "(book \<Rightarrow> bool) \<Rightarrow> runtime \<Rightarrow> string list \<Rightarrow> nat \<Rightarrow> cell list \<Rightarrow> book session \<Rightarrow>
     crash + book session" where
  "book_excel_row accepts rt cols idx row s =
     (case either_missing cols row ''title'' ''isbn'' of
        Inl msg \<Rightarrow> Inr (add_error (''Row '' @ show_nat (idx + 2) @ '': '' @ msg) s)
      | Inr True \<Rightarrow> Inr s
      | Inr False \<Rightarrow>
          (case book_excel_data rt cols idx row of
             Inl e \<Rightarrow> Inl e
           | Inr (Inl msg) \<Rightarrow> Inr (add_error (''Row '' @ show_nat (idx + 2) @ '': '' @ msg) s)
           | Inr (Inr data) \<Rightarrow>
               if isbn_exists (db s) (isbn data)
               then Inr (add_error
                      (''Row '' @ show_nat (idx + 2) @ '': Book with ISBN '' @ isbn data
                         @ '' already exists'') s)
               else persist accepts data s))"

text \<open>
  \<open>file\<close> is the result of \<open>pd.read_excel(file)\<close>: \<open>Inl msg\<close> when it raises, with the
  message of the exception. The labels of the columns are strings; of a sheet without
  columns \<open>df.columns.str\<close> raises an \<open>AttributeError\<close>, outside every handler.
\<close>

definition book_process_excel_file ::
  "(book \<Rightarrow> bool) \<Rightarrow> runtime \<Rightarrow> book list \<Rightarrow> string + frame \<Rightarrow>
     crash + book list \<times> outcome" where
  "book_process_excel_file accepts rt tbl file =
     (case file of
        Inl msg \<Rightarrow> Inr (tbl, failed [''Error reading Excel file: '' @ msg])
      | Inr df \<Rightarrow>
          if columns df = [] then Inl AttributeError
          else
            let cols = normalize_columns (columns df);
                missing = missing_columns book_expected_fields cols
            in if missing \<noteq> []
               then Inr (tbl, failed
                      [''Missing required columns: '' @ join '', '' (set_order rt missing)])
               else
                 (case for_rows (book_excel_row accepts rt cols) 0 (rows df) (start tbl) of
                    Inl e \<Rightarrow> Inl e
                  | Inr s \<Rightarrow> Inr (report s)))"

section \<open>UserFileProcessor: spreadsheets\<close>

text \<open>\<open>bool(row[name]) if pd.notna(row[name]) else True\<close>.\<close>

definition bool_or_true :: "string list \<Rightarrow> cell list \<Rightarrow> string \<Rightarrow> string + bool" where
  "bool_or_true cols row name =
     bind_err (row_get cols row name) (\<lambda>x.
     bind_err (truth (\<lambda>c. \<not> isna c) x) (\<lambda>present.
       if present then bind_err (row_get cols row name) (truth cell_bool) else Inr True))"

definition user_excel_data ::
  "runtime \<Rightarrow> string list \<Rightarrow> nat \<Rightarrow> cell list \<Rightarrow> string + library_user" where
  "user_excel_data rt cols idx row =
     bind_err (text_of rt cols idx row ''full_name'') (\<lambda>n.
     bind_err (text_of rt cols idx row ''email'') (\<lambda>e.
     bind_err (text_or_empty rt cols idx row ''phone'') (\<lambda>p.
     bind_err (text_or_empty rt cols idx row ''address'') (\<lambda>a.
     bind_err (text_of rt cols idx row ''registration_number'') (\<lambda>r.
     bind_err (bool_or_true cols row ''is_active'') (\<lambda>act.
       Inr \<lparr>full_name = n, email = e, phone = p, address = a, registration_number = r,
            is_active = act\<rparr>))))))"

definition user_excel_row ::
  "(library_user \<Rightarrow> bool) \<Rightarrow> runtime \<Rightarrow> string list \<Rightarrow> nat \<Rightarrow> cell list \<Rightarrow>
     library_user session \<Rightarrow> crash + library_user session" where
  "user_excel_row accepts rt cols idx row s =
     (case either_missing cols row ''full_name'' ''registration_number'' of
        Inl msg \<Rightarrow> Inr (add_error (''Row '' @ show_nat (idx + 2) @ '': '' @ msg) s)
      | Inr True \<Rightarrow> Inr s
      | Inr False \<Rightarrow>
          (case user_excel_data rt cols idx row of
             Inl msg \<Rightarrow> Inr (add_error (''Row '' @ show_nat (idx + 2) @ '': '' @ msg) s)
           | Inr data \<Rightarrow> user_check_create accepts (''Row '' @ show_nat (idx + 2)) data s))"

definition user_process_excel_file ::
  "(library_user \<Rightarrow> bool) \<Rightarrow> runtime \<Rightarrow> library_user list \<Rightarrow> string + frame \<Rightarrow>
     crash + library_user list \<times> outcome" where
  "user_process_excel_file accepts rt tbl file =
     (case file of
        Inl msg \<Rightarrow> Inr (tbl, failed [''Error reading Excel file: '' @ msg])
      | Inr df \<Rightarrow>
          if columns df = [] then Inl AttributeError
          else
            let cols = normalize_columns (columns df);
                missing = missing_columns user_expected_fields cols
            in if missing \<noteq> []
               then Inr (tbl, failed
                      [''Missing required columns: '' @ join '', '' (set_order rt missing)])
               else
                 (case for_rows (user_excel_row accepts rt cols) 0 (rows df) (start tbl) of
                    Inl e \<Rightarrow> Inl e
                  | Inr s \<Rightarrow> Inr (report s)))"

section \<open>process_file\<close>

text \<open>An uploaded file, as the two readers see it.\<close>

record upload =
  as_text :: "string option"
  as_excel :: "string + frame"

definition book_process_file ::
  "(book \<Rightarrow> bool) \<Rightarrow> runtime \<Rightarrow> book list \<Rightarrow> upload \<Rightarrow> string \<Rightarrow>
     crash + book list \<times> outcome" where
  "book_process_file accepts rt tbl file file_type =
     (if file_type = ''txt'' then book_process_txt_file accepts tbl (as_text file)
      else if file_type = ''excel'' then book_process_excel_file accepts rt tbl (as_excel file)
      else Inr (tbl, failed [''Unsupported file type: '' @ file_type]))"

definition user_process_file ::
  "(library_user \<Rightarrow> bool) \<Rightarrow> runtime \<Rightarrow> library_user list \<Rightarrow> upload \<Rightarrow> string \<Rightarrow>
     crash + library_user list \<times> outcome" where
  "user_process_file accepts rt tbl file file_type =
     (if file_type = ''txt'' then user_process_txt_file accepts tbl (as_text file)
      else if file_type = ''excel'' then user_process_excel_file accepts rt tbl (as_excel file)
      else Inr (tbl, failed [''Unsupported file type: '' @ file_type]))"

section \<open>Counting rows, as the specification words it\<close>

text \<open>
  The specification counts the candidate rows that pass decoding, coercion and the
  uniqueness check, and those that fail one of them. \<open>tally\<close> is that count: \<open>skip\<close>
  tells the rows that are no candidates, \<open>dec\<close> decodes and coerces a row, given its
  number, \<open>conflict\<close> is the uniqueness check against the collection persisted so far,
  which a passing row joins. The rows are numbered from \<open>idx\<close>. The result is the number
  of passing rows and the number of failing rows.
\<close>

fun tally ::
  "('a \<Rightarrow> bool) \<Rightarrow> (nat \<Rightarrow> 'a \<Rightarrow> 'r option) \<Rightarrow> ('r list \<Rightarrow> 'r \<Rightarrow> bool) \<Rightarrow> nat \<Rightarrow> 'r list \<Rightarrow>
     'a list \<Rightarrow> nat \<times> nat" where
  "tally skip dec conflict idx tbl [] = (0, 0)"
| "tally skip dec conflict idx tbl (x # xs) =
     (if skip x then tally skip dec conflict (Suc idx) tbl xs
      else
        (case dec idx x of
           None \<Rightarrow> (case tally skip dec conflict (Suc idx) tbl xs of (c, e) \<Rightarrow> (c, Suc e))
         | Some r \<Rightarrow>
             if conflict tbl r
             then (case tally skip dec conflict (Suc idx) tbl xs of (c, e) \<Rightarrow> (c, Suc e))
             else (case tally skip dec conflict (Suc idx) (tbl @ [r]) xs of
                     (c, e) \<Rightarrow> (Suc c, e))))"

definition book_conflict :: "book list \<Rightarrow> book \<Rightarrow> bool" where
  "book_conflict tbl r = isbn_exists tbl (isbn r)"

definition user_conflict :: "library_user list \<Rightarrow> library_user \<Rightarrow> bool" where
  "user_conflict tbl r =
     (registration_exists tbl (registration_number r) \<or> email_exists tbl (email r))"

definition blank_line :: "string \<Rightarrow> bool" where
  "blank_line line = (strip line = [])"

definition book_txt_decode :: "string \<Rightarrow> book option" where
  "book_txt_decode line =
     (let parts = split_on CHR ''|'' (strip line)
      in if length parts \<noteq> length book_expected_fields then None
         else (case book_txt_data parts of Inl msg \<Rightarrow> None | Inr data \<Rightarrow> Some data))"

definition user_txt_decode :: "string \<Rightarrow> library_user option" where
  "user_txt_decode line =
     (let parts = split_on CHR ''|'' (strip line)
      in if length parts \<noteq> length user_expected_fields then None
         else (case user_txt_data parts of Inl msg \<Rightarrow> None | Inr data \<Rightarrow> Some data))"

definition primary_missing :: "string list \<Rightarrow> string \<Rightarrow> string \<Rightarrow> cell list \<Rightarrow> bool" where
  "primary_missing cols a b row = (either_missing cols row a b = Inr True)"

definition book_excel_decode ::
  "runtime \<Rightarrow> string list \<Rightarrow> nat \<Rightarrow> cell list \<Rightarrow> book option" where
  "book_excel_decode rt cols idx row =
     (case either_missing cols row ''title'' ''isbn'' of
        Inl msg \<Rightarrow> None
      | Inr m \<Rightarrow>
          (case book_excel_data rt cols idx row of
             Inl e \<Rightarrow> None
           | Inr (Inl msg) \<Rightarrow> None
           | Inr (Inr data) \<Rightarrow> Some data))"

definition user_excel_decode ::
  "runtime \<Rightarrow> string list \<Rightarrow> nat \<Rightarrow> cell list \<Rightarrow> library_user option" where
  "user_excel_decode rt cols idx row =
     (case either_missing cols row ''full_name'' ''registration_number'' of
        Inl msg \<Rightarrow> None
      | Inr m \<Rightarrow>
          (case user_excel_data rt cols idx row of Inl msg \<Rightarrow> None | Inr data \<Rightarrow> Some data))"

text \<open>The natural keys: at most one record for each value.\<close>

definition book_keys_unique :: "book list \<Rightarrow> bool" where
  "book_keys_unique tbl = distinct (map isbn tbl)"

definition user_keys_unique :: "library_user list \<Rightarrow> bool" where
  "user_keys_unique tbl =
     (distinct (map registration_number tbl) \<and> distinct (map email tbl))"

text \<open>\<open>e.endswith(' already exists')\<close>.\<close>

definition already_exists_error :: "string \<Rightarrow> bool" where
  "already_exists_error e =
     (length '' already exists'' \<le> length e
      \<and> drop (length e - length '' already exists'') e = '' already exists'')"

text \<open>
  What the four loop bodies have in common, for the proofs: a row that is no candidate
  leaves the session as it is; a candidate that does not decode adds one error and
  nothing else, or raises out of the import; a candidate that conflicts adds one error
  and nothing else; any other candidate goes to \<open>persist\<close>.
\<close>

definition row_body ::
  "(nat \<Rightarrow> 'a \<Rightarrow> 'r session \<Rightarrow> crash + 'r session) \<Rightarrow> ('a \<Rightarrow> bool) \<Rightarrow>
     (nat \<Rightarrow> 'a \<Rightarrow> 'r option) \<Rightarrow> ('r list \<Rightarrow> 'r \<Rightarrow> bool) \<Rightarrow> ('r \<Rightarrow> bool) \<Rightarrow> bool" where
  "row_body body skip dec conflict accepts \<longleftrightarrow>
     (\<forall>idx x s.
        (skip x \<longrightarrow> body idx x s = Inr s)
      \<and> (\<not> skip x \<and> dec idx x = None \<longrightarrow>
             (\<exists>m. body idx x s = Inr (add_error m s)) \<or> (\<exists>e. body idx x s = Inl e))
      \<and> (\<forall>r. \<not> skip x \<and> dec idx x = Some r \<and> conflict (db s) r \<longrightarrow>
             (\<exists>m. already_exists_error m \<and> body idx x s = Inr (add_error m s)))
      \<and> (\<forall>r. \<not> skip x \<and> dec idx x = Some r \<and> \<not> conflict (db s) r \<longrightarrow>
             body idx x s = persist accepts r s))"

section \<open>Sample inputs\<close>

definition accept_all :: "'r \<Rightarrow> bool" where
  "accept_all r = True"

text \<open>
  A runtime for the samples: it keeps the order of a set as listed and writes a
  \<open>Series\<close> as its cells one after the other.
\<close>

definition plain :: runtime where
  "plain = \<lparr>series_str = (\<lambda>idx name cs. concat (map cell_str cs)), set_order = (\<lambda>xs. xs)\<rparr>"

definition clean_code :: book where
  "clean_code =
     \<lparr>title = ''Clean Code'', author = ''Robert Martin'', isbn = ''9780132350884'',
      publisher = ''Prentice Hall'', publication_year = Some 2008,
      category = ''Software Engineering'', quantity = 5, available_quantity = 5\<rparr>"

definition john_doe :: library_user where
  "john_doe =
     \<lparr>full_name = ''John Doe'', email = ''john@example.com'', phone = ''1234567890'',
      address = ''123 Main St'', registration_number = ''REG001'', is_active = True\<rparr>"

definition book_header :: string where
  "book_header = ''title|author|isbn|publisher|publication_year|category|quantity''"

definition user_header :: string where
  "user_header = ''full_name|email|phone|address|registration_number|is_active''"

definition clean_code_line :: string where
  "clean_code_line =
     ''Clean Code|Robert Martin|9780132350884|Prentice Hall|2008|Software Engineering|5''"

definition john_doe_line :: string where
  "john_doe_line = ''John Doe|john@example.com|1234567890|123 Main St|REG001|True''"

text \<open>A header, one good row and one row with too few fields.\<close>

definition books_txt :: string where
  "books_txt = book_header @ [CHR 0x0A] @ clean_code_line @ [CHR 0x0A] @ ''Invalid Book|Author''"

definition users_txt :: string where
  "users_txt = user_header @ [CHR 0x0A] @ john_doe_line @ [CHR 0x0A] @ ''Jane Doe|jane''"

text \<open>
  Two spreadsheets of three rows: a good row, a row without its primary field, and a row
  whose key the first row has taken.
\<close>

definition books_frame :: frame where
  "books_frame =
     \<lparr>columns = [''TITLE'', ''Author '', ''isbn'', ''publisher'', ''publication_year'',
                 ''category'', ''quantity''],
      rows = [[Text ''Clean Code'', Text ''Robert Martin'', Text ''9780132350884'',
               Text ''Prentice Hall'', Num 2008, Text ''Software Engineering'', Num 5],
              [NaN, Text ''Nobody'', Text ''1'', NaN, NaN, NaN, Num 1],
              [Text ''Clean Code 2'', NaN, Text ''9780132350884'', NaN, NaN, NaN, Num 1]]\<rparr>"

definition users_frame :: frame where
  "users_frame =
     \<lparr>columns = [''full_name'', ''email'', ''phone'', ''address'', ''registration_number'',
                 ''is_active''],
      rows = [[Text ''John Doe'', Text ''john@example.com'', Text ''1234567890'',
               Text ''123 Main St'', Text ''REG001'', Flag True],
              [Text ''Jane'', Text ''jane@example.com'', NaN, NaN, NaN, NaN],
              [Text ''Jim'', Text ''john@example.com'', NaN, NaN, Text ''REG002'', NaN]]\<rparr>"

definition books_short_first :: string where
  "books_short_first =
     book_header @ [CHR 0x0A] @ ''Invalid Book|Author'' @ [CHR 0x0A] @ clean_code_line"

definition users_short_first :: string where
  "users_short_first = user_header @ [CHR 0x0A] @ ''Jane Doe|jane'' @ [CHR 0x0A] @ john_doe_line"

text \<open>Two more users: Johnny takes John Doe's registration number and email, Jim his email.\<close>

definition johnny :: library_user where
  "johnny =
     \<lparr>full_name = ''Johnny'', email = ''john@example.com'', phone = [], address = [],
      registration_number = ''REG001'', is_active = True\<rparr>"

definition jim :: library_user where
  "jim =
     \<lparr>full_name = ''Jim'', email = ''john@example.com'', phone = [], address = [],
      registration_number = ''REG002'', is_active = True\<rparr>"

definition johnny_line :: string where
  "johnny_line = ''Johnny|john@example.com|||REG001|yes''"

definition jim_line :: string where
  "jim_line = ''Jim|john@example.com|||REG002|true''"

definition johnny_row :: "cell list" where
  "johnny_row = [Text ''Johnny'', Text ''john@example.com'', NaN, NaN, Text ''REG001'', NaN]"

definition jim_row :: "cell list" where
  "jim_row = [Text ''Jim'', Text ''john@example.com'', NaN, NaN, Text ''REG002'', NaN]"

text \<open>Rows of a book spreadsheet: complete, without title, without author.\<close>

definition clean_code_row :: "cell list" where
  "clean_code_row =
     [Text ''Clean Code'', Text ''Robert Martin'', Text ''9780132350884'',
      Text ''Prentice Hall'', Num 2008, Text ''Software Engineering'', Num 5]"

definition nobody_row :: "cell list" where
  "nobody_row = [NaN, Text ''Nobody'', Text ''1'', NaN, NaN, NaN, Num 1]"

definition jane_row :: "cell list" where
  "jane_row = [Text ''Jane'', Text ''jane@example.com'', NaN, NaN, NaN, NaN]"

definition anonymous_row :: "cell list" where
  "anonymous_row = [Text ''Beowulf'', NaN, Text ''9780140449310'', NaN, NaN, NaN, Num 2]"

definition beowulf :: book where
  "beowulf =
     \<lparr>title = ''Beowulf'', author = ''nan'', isbn = ''9780140449310'', publisher = [],
      publication_year = None, category = [], quantity = 2, available_quantity = 2\<rparr>"

text \<open>Two users without email.\<close>

definition ann_row :: "cell list" where
  "ann_row = [Text ''Ann'', NaN, NaN, NaN, Text ''R1'', NaN]"

definition bob_row :: "cell list" where
  "bob_row = [Text ''Bob'', NaN, NaN, NaN, Text ''R2'', NaN]"

definition ann :: library_user where
  "ann =
     \<lparr>full_name = ''Ann'', email = ''nan'', phone = [], address = [],
      registration_number = ''R1'', is_active = True\<rparr>"

definition bob :: library_user where
  "bob =
     \<lparr>full_name = ''Bob'', email = ''nan'', phone = [], address = [],
      registration_number = ''R2'', is_active = True\<rparr>"

definition no_email_frame :: frame where
  "no_email_frame = \<lparr>columns = user_expected_fields, rows = [ann_row, bob_row]\<rparr>"

text \<open>A second book under the ISBN of the first, as a text line and as a spreadsheet row.\<close>

definition clean_code_again :: book where
  "clean_code_again =
     \<lparr>title = ''Clean Code 2'', author = ''nan'', isbn = ''9780132350884'', publisher = [],
      publication_year = None, category = [], quantity = 1, available_quantity = 1\<rparr>"

definition clean_code_again_line :: string where
  "clean_code_again_line = ''Clean Code 2|nan|9780132350884||||1''"

definition clean_code_again_row :: "cell list" where
  "clean_code_again_row =
     [Text ''Clean Code 2'', NaN, Text ''9780132350884'', NaN, NaN, NaN, Num 1]"

definition john_doe_row :: "cell list" where
  "john_doe_row =
     [Text ''John Doe'', Text ''john@example.com'', Text ''1234567890'', Text ''123 Main St'',
      Text ''REG001'', Flag True]"

text \<open>Files whose rows are all good.\<close>

definition one_book_txt :: string where
  "one_book_txt = book_header @ [CHR 0x0A] @ clean_code_line"

definition one_user_txt :: string where
  "one_user_txt = user_header @ [CHR 0x0A] @ john_doe_line"

definition one_book_frame :: frame where
  "one_book_frame = \<lparr>columns = book_expected_fields, rows = [clean_code_row]\<rparr>"

definition one_user_frame :: frame where
  "one_user_frame = \<lparr>columns = user_expected_fields, rows = [john_doe_row]\<rparr>"









section \<open>Copies on loan\<close>

lemma call_copy_in_range: "in_stock_range b \<Longrightarrow> in_stock_range (call_copy c b)"
  by (cases c) (auto simp: in_stock_range_def reserve_copy_def return_copy_def)

lemma call_copy_quantity: "quantity (call_copy c b) = quantity b"
  by (cases c) (auto simp: reserve_copy_def return_copy_def)

lemma run_calls_in_range: "in_stock_range b \<Longrightarrow> in_stock_range (run_calls cs b)"
  unfolding run_calls_def
  by (induction cs arbitrary: b) (auto simp: call_copy_in_range)

lemma run_calls_quantity: "quantity (run_calls cs b) = quantity b"
  unfolding run_calls_def
  by (induction cs arbitrary: b) (auto simp: call_copy_quantity)

text \<open>
  C8. Starting from a book with \<open>0 \<le> available_quantity \<le> quantity\<close>, after every
  sequence of \<open>reserve_copy\<close> and \<open>return_copy\<close> calls (so after every prefix of one) the
  available quantity is still between 0 and the unchanged quantity. \<open>reserve_copy\<close>
  returns True and takes one copy exactly when a copy is available, and otherwise returns
  False and leaves the book as it is; \<open>return_copy\<close> adds one copy exactly when fewer
  than \<open>quantity\<close> copies are available, and otherwise leaves the book as it is.
\<close>

theorem C8_available_quantity_stays_in_range:
  assumes "0 \<le> available_quantity b" and "available_quantity b \<le> quantity b"
  shows "0 \<le> available_quantity (run_calls cs b)
       \<and> available_quantity (run_calls cs b) \<le> quantity b
       \<and> quantity (run_calls cs b) = quantity b
       \<and> (fst (reserve_copy b) \<longleftrightarrow> available_quantity b > 0)
       \<and> (available_quantity b > 0 \<longrightarrow>
            snd (reserve_copy b) = b\<lparr>available_quantity := available_quantity b - 1\<rparr>)
       \<and> (\<not> available_quantity b > 0 \<longrightarrow> snd (reserve_copy b) = b)
       \<and> (fst (return_copy b) \<longleftrightarrow> available_quantity b < quantity b)
       \<and> (available_quantity b < quantity b \<longrightarrow>
            snd (return_copy b) = b\<lparr>available_quantity := available_quantity b + 1\<rparr>)
       \<and> (\<not> available_quantity b < quantity b \<longrightarrow> snd (return_copy b) = b)"
proof -
  from assms have "in_stock_range b"
    by (simp add: in_stock_range_def)
  then have "in_stock_range (run_calls cs b)"
    by (rule run_calls_in_range)
  then have "0 \<le> available_quantity (run_calls cs b)"
    and "available_quantity (run_calls cs b) \<le> quantity b"
    by (simp_all add: in_stock_range_def run_calls_quantity)
  then show ?thesis
    by (simp add: run_calls_quantity reserve_copy_def return_copy_def)
qed

theorem C8_available_quantity_stays_in_range_witness:
  "0 \<le> available_quantity clean_code
   \<and> available_quantity clean_code \<le> quantity clean_code
   \<and> available_quantity (run_calls [Reserve, Return, Return, Reserve, Reserve] clean_code) = 3
   \<and> snd (reserve_copy clean_code) = clean_code\<lparr>available_quantity := 4\<rparr>
   \<and> snd (return_copy clean_code) = clean_code"
  using C8_available_quantity_stays_in_range
    [of clean_code "[Reserve, Return, Return, Reserve, Reserve]"]
  by (simp add: clean_code_def run_calls_def reserve_copy_def return_copy_def)

section \<open>The success flag\<close>

lemma report_success: "report s = (tbl, out) \<Longrightarrow> success out = (0 < created out)"
  by (auto simp: report_def)

lemma failed_success: "success (failed msgs) = (0 < created (failed msgs))"
  by (simp add: failed_def)

lemma book_txt_success:
  "book_process_txt_file accepts tbl file = Inr (tbl', out) \<Longrightarrow> success out = (0 < created out)"
  by (auto simp: book_process_txt_file_def Let_def failed_def report_def
           split: option.splits if_splits sum.splits)

lemma book_excel_success:
  "book_process_excel_file accepts rt tbl file = Inr (tbl', out) \<Longrightarrow>
     success out = (0 < created out)"
  by (auto simp: book_process_excel_file_def Let_def failed_def report_def
           split: if_splits sum.splits)

lemma user_txt_success:
  "user_process_txt_file accepts tbl file = Inr (tbl', out) \<Longrightarrow> success out = (0 < created out)"
  by (auto simp: user_process_txt_file_def Let_def failed_def report_def
           split: option.splits if_splits sum.splits)

lemma user_excel_success:
  "user_process_excel_file accepts rt tbl file = Inr (tbl', out) \<Longrightarrow>
     success out = (0 < created out)"
  by (auto simp: user_process_excel_file_def Let_def failed_def report_def
           split: if_splits sum.splits)

text \<open>
  C2. Every outcome that \<open>process_file\<close> returns, for books and for users, for a text
  file, a spreadsheet or an unsupported type, has \<open>success\<close> true exactly when
  \<open>created > 0\<close>. The flag is a function of \<open>created\<close> alone: an import whose rows all
  fail has \<open>created = 0\<close> and so \<open>success = False\<close>, whatever \<open>errors\<close> holds.
\<close>

theorem C2_success_iff_created:
  "(book_process_file accepts rt tbl file file_type = Inr (tbl', out) \<longrightarrow>
      success out = (0 < created out))
   \<and> (user_process_file uaccepts urt utbl ufile ufile_type = Inr (utbl', uout) \<longrightarrow>
      success uout = (0 < created uout))"
  by (auto simp: book_process_file_def user_process_file_def failed_def
           dest: book_txt_success book_excel_success user_txt_success user_excel_success
           split: if_splits)

text \<open>
  At a text file with one good row and one short row: one row created, one error, and
  \<open>success\<close> is true although \<open>errors\<close> is not empty.
\<close>

theorem C2_success_iff_created_witness:
  "book_process_file accept_all plain [] \<lparr>as_text = Some books_txt, as_excel = Inl []\<rparr> ''txt''
     = Inr ([clean_code],
            \<lparr>success = True, created = 1,
             errors = [''Line 3: Expected 7 fields, got 2'']\<rparr>)
   \<and> user_process_file accept_all plain [] \<lparr>as_text = Some users_txt, as_excel = Inl []\<rparr> ''txt''
     = Inr ([john_doe],
            \<lparr>success = True, created = 1,
             errors = [''Line 3: Expected 6 fields, got 2'']\<rparr>)
   \<and> success \<lparr>success = True, created = 1,
                errors = [''Line 3: Expected 7 fields, got 2'']\<rparr>
       = (0 < created \<lparr>success = True, created = 1,
                errors = [''Line 3: Expected 7 fields, got 2'']\<rparr>)"
proof -
  have b: "book_process_file accept_all plain []
             \<lparr>as_text = Some books_txt, as_excel = Inl []\<rparr> ''txt''
           = Inr ([clean_code],
                  \<lparr>success = True, created = 1,
                   errors = [''Line 3: Expected 7 fields, got 2'']\<rparr>)"
    by code_simp
  have u: "user_process_file accept_all plain []
             \<lparr>as_text = Some users_txt, as_excel = Inl []\<rparr> ''txt''
           = Inr ([john_doe],
                  \<lparr>success = True, created = 1,
                   errors = [''Line 3: Expected 6 fields, got 2'']\<rparr>)"
    by code_simp
  from C2_success_iff_created [of accept_all plain "[]"
         "\<lparr>as_text = Some books_txt, as_excel = Inl []\<rparr>" "''txt''" "[clean_code]"
         "\<lparr>success = True, created = 1, errors = [''Line 3: Expected 7 fields, got 2'']\<rparr>"
         accept_all plain "[]" "\<lparr>as_text = Some users_txt, as_excel = Inl []\<rparr>" "''txt''"
         "[john_doe]"
         "\<lparr>success = True, created = 1, errors = [''Line 3: Expected 6 fields, got 2'']\<rparr>"]
       b u
  show ?thesis by simp
qed

section \<open>The header of a text file\<close>

text \<open>
  C3, as stated, fails: a file of one line has a header that is not the expected one, and
  the import aborts with the message about the missing data row, not with
  \<open>Invalid header\<close>.
\<close>

theorem C3_single_line_counterexample:
  "split_on CHR ''|'' (strip (hd (file_lines ''wrong|header|format'')))
     \<noteq> book_expected_fields
   \<and> book_process_txt_file accept_all [] (Some ''wrong|header|format'')
     = Inr ([], \<lparr>success = False, created = 0,
                 errors = [''File must contain at least a header and one data row'']\<rparr>)
   \<and> errors \<lparr>success = False, created = 0,
              errors = [''File must contain at least a header and one data row'']\<rparr>
     \<noteq> [''Invalid header. Expected: title|author|isbn|publisher|publication_year|category|quantity'']"
  by code_simp

text \<open>
  C3, amended. For a text file that has at least two lines once the surrounding
  whitespace is removed, and whose first line, trimmed and split on \<open>|\<close>, is not the
  expected sequence of field names, the import returns \<open>success = False\<close>, \<open>created = 0\<close>
  and the single error \<open>Invalid header. Expected: \<close> followed by the expected names
  joined by \<open>|\<close>, and the table is left as it was. A file of fewer than two lines gets
  the error \<open>File must contain at least a header and one data row\<close> instead, whatever
  its header. For books and for users.
\<close>

theorem C3_invalid_header_aborts:
  "(2 \<le> length (file_lines content) \<and>
    split_on CHR ''|'' (strip (hd (file_lines content))) \<noteq> book_expected_fields
    \<longrightarrow> book_process_txt_file accepts tbl (Some content)
        = Inr (tbl, \<lparr>success = False, created = 0,
                     errors = [''Invalid header. Expected: title|author|isbn|publisher|publication_year|category|quantity'']\<rparr>))
   \<and> (2 \<le> length (file_lines ucontent) \<and>
    split_on CHR ''|'' (strip (hd (file_lines ucontent))) \<noteq> user_expected_fields
    \<longrightarrow> user_process_txt_file uaccepts utbl (Some ucontent)
        = Inr (utbl, \<lparr>success = False, created = 0,
                     errors = [''Invalid header. Expected: full_name|email|phone|address|registration_number|is_active'']\<rparr>))
   \<and> (length (file_lines short) < 2
    \<longrightarrow> book_process_txt_file accepts tbl (Some short)
        = Inr (tbl, \<lparr>success = False, created = 0,
                     errors = [''File must contain at least a header and one data row'']\<rparr>)
      \<and> user_process_txt_file uaccepts utbl (Some short)
        = Inr (utbl, \<lparr>success = False, created = 0,
                     errors = [''File must contain at least a header and one data row'']\<rparr>))"
  by (simp add: book_process_txt_file_def user_process_txt_file_def Let_def failed_def
        book_expected_fields_def user_expected_fields_def)

theorem C3_invalid_header_aborts_witness:
  "2 \<le> length (file_lines (''wrong|header|format'' @ [CHR 0x0A] @ clean_code_line))
   \<and> split_on CHR ''|'' (strip (hd (file_lines
         (''wrong|header|format'' @ [CHR 0x0A] @ clean_code_line))))
       \<noteq> book_expected_fields
   \<and> book_process_txt_file accept_all [clean_code]
         (Some (''wrong|header|format'' @ [CHR 0x0A] @ clean_code_line))
       = Inr ([clean_code], \<lparr>success = False, created = 0,
                     errors = [''Invalid header. Expected: title|author|isbn|publisher|publication_year|category|quantity'']\<rparr>)
   \<and> 2 \<le> length (file_lines (book_header @ [CHR 0x0A] @ john_doe_line))
   \<and> split_on CHR ''|'' (strip (hd (file_lines
         (book_header @ [CHR 0x0A] @ john_doe_line))))
       \<noteq> user_expected_fields
   \<and> user_process_txt_file accept_all [john_doe]
         (Some (book_header @ [CHR 0x0A] @ john_doe_line))
       = Inr ([john_doe], \<lparr>success = False, created = 0,
                     errors = [''Invalid header. Expected: full_name|email|phone|address|registration_number|is_active'']\<rparr>)
   \<and> length (file_lines ''wrong|header|format'') < 2
   \<and> book_process_txt_file accept_all [clean_code] (Some ''wrong|header|format'')
       = Inr ([clean_code], \<lparr>success = False, created = 0,
                     errors = [''File must contain at least a header and one data row'']\<rparr>)
   \<and> user_process_txt_file accept_all [john_doe] (Some ''wrong|header|format'')
       = Inr ([john_doe], \<lparr>success = False, created = 0,
                     errors = [''File must contain at least a header and one data row'']\<rparr>)"
proof -
  have h1: "2 \<le> length (file_lines
              (''wrong|header|format'' @ [CHR 0x0A] @ clean_code_line))"
    by code_simp
  have h2: "split_on CHR ''|'' (strip (hd (file_lines
              (''wrong|header|format'' @ [CHR 0x0A] @ clean_code_line))))
            \<noteq> book_expected_fields"
    by code_simp
  have h3: "2 \<le> length (file_lines (book_header @ [CHR 0x0A] @ john_doe_line))"
    by code_simp
  have h4: "split_on CHR ''|'' (strip (hd (file_lines
              (book_header @ [CHR 0x0A] @ john_doe_line))))
            \<noteq> user_expected_fields"
    by code_simp
  have h5: "length (file_lines ''wrong|header|format'') < 2"
    by code_simp
  from C3_invalid_header_aborts
         [where content = "''wrong|header|format'' @ [CHR 0x0A] @ clean_code_line"
            and accepts = accept_all and tbl = "[clean_code]"
            and ucontent = "book_header @ [CHR 0x0A] @ john_doe_line"
            and uaccepts = accept_all and utbl = "[john_doe]"
            and short = "''wrong|header|format''"]
       h1 h2 h3 h4 h5
  show ?thesis by blast
qed

section \<open>The row loop\<close>

lemma for_rows_append:
  "for_rows body idx (xs @ ys) s =
     (case for_rows body idx xs s of
        Inl e \<Rightarrow> Inl e
      | Inr s' \<Rightarrow> for_rows body (idx + length xs) ys s')"
  by (induction xs arbitrary: idx s) (auto split: sum.splits)

lemma persist_Inr:
  "persist accepts r s = Inr s' \<Longrightarrow>
     s' = s\<lparr>db := db s @ [r], created_count := created_count s + 1\<rparr>"
  by (auto simp: persist_def objects_create_def split: if_splits)

lemma persist_accepted:
  "accepts r \<Longrightarrow> persist accepts r s = Inr (s\<lparr>db := db s @ [r], created_count := created_count s + 1\<rparr>)"
  by (simp add: persist_def objects_create_def)

lemma add_error_simps [simp]:
  "db (add_error m s) = db s"
  "created_count (add_error m s) = created_count s"
  "errs (add_error m s) = errs s @ [m]"
  by (simp_all add: add_error_def)

lemma row_bodyD:
  assumes "row_body body skip dec conflict accepts"
  shows "skip x \<Longrightarrow> body idx x s = Inr s"
    and "\<not> skip x \<Longrightarrow> dec idx x = None \<Longrightarrow>
           (\<exists>m. body idx x s = Inr (add_error m s)) \<or> (\<exists>e. body idx x s = Inl e)"
    and "\<not> skip x \<Longrightarrow> dec idx x = Some r \<Longrightarrow> conflict (db s) r \<Longrightarrow>
           \<exists>m. already_exists_error m \<and> body idx x s = Inr (add_error m s)"
    and "\<not> skip x \<Longrightarrow> dec idx x = Some r \<Longrightarrow> \<not> conflict (db s) r \<Longrightarrow>
           body idx x s = persist accepts r s"
  using assms unfolding row_body_def by blast+

text \<open>A loop that ends has passed every row: no row has raised out of it.\<close>

lemma for_rows_head:
  "for_rows body idx (x # xs) s = Inr s' \<Longrightarrow>
     \<exists>s1. body idx x s = Inr s1 \<and> for_rows body (Suc idx) xs s1 = Inr s'"
  by (auto split: sum.splits)

lemma row_body_undecoded:
  assumes rb: "row_body body skip dec conflict accepts"
    and run: "for_rows body idx (x # xs) s = Inr s'"
    and ns: "\<not> skip x" and none: "dec idx x = None"
  shows "\<exists>m. body idx x s = Inr (add_error m s)
           \<and> for_rows body (Suc idx) xs (add_error m s) = Inr s'"
proof -
  from for_rows_head [OF run] obtain s1 where
    s1: "body idx x s = Inr s1" and rest: "for_rows body (Suc idx) xs s1 = Inr s'"
    by blast
  from row_bodyD(2) [OF rb ns none, of s] s1
  obtain m where "body idx x s = Inr (add_error m s)" by auto
  with s1 rest show ?thesis by auto
qed

lemma loop_tally:
  assumes rb: "row_body body skip dec conflict accepts"
  shows "for_rows body idx xs s = Inr s' \<Longrightarrow>
         created_count s' = created_count s + fst (tally skip dec conflict idx (db s) xs)
       \<and> length (errs s') = length (errs s) + snd (tally skip dec conflict idx (db s) xs)"
proof (induction xs arbitrary: idx s)
  case Nil
  then show ?case by simp
next
  case (Cons x xs)
  show ?case
  proof (cases "skip x")
    case True
    with Cons.prems row_bodyD(1) [OF rb] have "for_rows body (Suc idx) xs s = Inr s'" by simp
    from Cons.IH [OF this] True show ?thesis by simp
  next
    case False
    show ?thesis
    proof (cases "dec idx x")
      case None
      from row_body_undecoded [OF rb Cons.prems False None]
      obtain m where "for_rows body (Suc idx) xs (add_error m s) = Inr s'" by blast
      from Cons.IH [OF this] False None show ?thesis
        by (simp split: prod.splits)
    next
      case (Some r)
      show ?thesis
      proof (cases "conflict (db s) r")
        case True
        from row_bodyD(3) [OF rb False Some True]
        obtain m where m: "body idx x s = Inr (add_error m s)" by blast
        with Cons.prems have "for_rows body (Suc idx) xs (add_error m s) = Inr s'" by simp
        from Cons.IH [OF this] False Some True show ?thesis
          by (simp split: prod.splits)
      next
        case nc: False
        from row_bodyD(4) [OF rb False Some nc]
        have b: "body idx x s = persist accepts r s" .
        with Cons.prems obtain s1 where s1: "persist accepts r s = Inr s1"
          and rest: "for_rows body (Suc idx) xs s1 = Inr s'"
          by (auto split: sum.splits)
        from persist_Inr [OF s1]
        have s1': "s1 = s\<lparr>db := db s @ [r], created_count := created_count s + 1\<rparr>" .
        from Cons.IH [OF rest] s1' False Some nc show ?thesis
          by (simp split: prod.splits)
      qed
    qed
  qed
qed

lemma tally_sum:
  "tally skip dec conflict idx tbl xs = (c, e) \<Longrightarrow>
     c + e = length (filter (\<lambda>x. \<not> skip x) xs)"
  by (induction xs arbitrary: idx tbl c e)
     (auto split: option.splits prod.splits if_splits)

lemma tally_total:
  "fst (tally skip dec conflict idx tbl xs) + snd (tally skip dec conflict idx tbl xs)
     = length (filter (\<lambda>x. \<not> skip x) xs)"
  by (cases "tally skip dec conflict idx tbl xs") (simp add: tally_sum)

section \<open>The four loop bodies\<close>

lemma already_exists_suffix: "already_exists_error (p @ '' already exists'')"
  by (simp add: already_exists_error_def)

lemma book_txt_row_skip: "blank_line x \<Longrightarrow> book_txt_row accepts idx x s = Inr s"
  by (simp add: blank_line_def book_txt_row_def)

lemma book_txt_row_undecoded:
  "\<not> blank_line x \<Longrightarrow> book_txt_decode x = None \<Longrightarrow>
     \<exists>m. book_txt_row accepts idx x s = Inr (add_error m s)"
  by (auto simp: blank_line_def book_txt_row_def book_txt_decode_def Let_def
           split: if_splits sum.splits)

lemma book_txt_row_conflict:
  "\<not> blank_line x \<Longrightarrow> book_txt_decode x = Some r \<Longrightarrow> book_conflict (db s) r \<Longrightarrow>
     \<exists>m. already_exists_error m \<and> book_txt_row accepts idx x s = Inr (add_error m s)"
  using already_exists_suffix [of "''Line '' @ show_nat idx @ '': Book with ISBN '' @ isbn r"]
  by (auto simp: blank_line_def book_txt_row_def book_txt_decode_def Let_def book_conflict_def
           split: if_splits sum.splits)

lemma book_txt_row_persist:
  "\<not> blank_line x \<Longrightarrow> book_txt_decode x = Some r \<Longrightarrow> \<not> book_conflict (db s) r \<Longrightarrow>
     book_txt_row accepts idx x s = persist accepts r s"
  by (auto simp: blank_line_def book_txt_row_def book_txt_decode_def Let_def book_conflict_def
           split: if_splits sum.splits)

lemma user_check_create_conflict:
  "user_conflict (db s) r \<Longrightarrow>
     \<exists>m. already_exists_error m \<and> user_check_create accepts place r s = Inr (add_error m s)"
  using already_exists_suffix [of "place @ '': User with registration '' @ registration_number r"]
        already_exists_suffix [of "place @ '': User with email '' @ email r"]
  by (auto simp: user_check_create_def user_conflict_def)

lemma user_check_create_persist:
  "\<not> user_conflict (db s) r \<Longrightarrow> user_check_create accepts place r s = persist accepts r s"
  by (simp add: user_check_create_def user_conflict_def)

lemma user_txt_row_skip: "blank_line x \<Longrightarrow> user_txt_row accepts idx x s = Inr s"
  by (simp add: blank_line_def user_txt_row_def)

lemma user_txt_row_undecoded:
  "\<not> blank_line x \<Longrightarrow> user_txt_decode x = None \<Longrightarrow>
     \<exists>m. user_txt_row accepts idx x s = Inr (add_error m s)"
  by (auto simp: blank_line_def user_txt_row_def user_txt_decode_def Let_def
           split: if_splits sum.splits)

lemma user_txt_row_conflict:
  "\<not> blank_line x \<Longrightarrow> user_txt_decode x = Some r \<Longrightarrow> user_conflict (db s) r \<Longrightarrow>
     \<exists>m. already_exists_error m \<and> user_txt_row accepts idx x s = Inr (add_error m s)"
  by (auto simp: blank_line_def user_txt_row_def user_txt_decode_def Let_def
           intro: user_check_create_conflict split: if_splits sum.splits)

lemma user_txt_row_persist:
  "\<not> blank_line x \<Longrightarrow> user_txt_decode x = Some r \<Longrightarrow> \<not> user_conflict (db s) r \<Longrightarrow>
     user_txt_row accepts idx x s = persist accepts r s"
  by (auto simp: blank_line_def user_txt_row_def user_txt_decode_def Let_def
                 user_check_create_persist
           split: if_splits sum.splits)

lemma book_excel_row_skip:
  "primary_missing cols ''title'' ''isbn'' x \<Longrightarrow>
     book_excel_row accepts rt cols idx x s = Inr s"
  by (simp add: primary_missing_def book_excel_row_def)

lemma book_excel_row_undecoded:
  "\<not> primary_missing cols ''title'' ''isbn'' x \<Longrightarrow>
   book_excel_decode rt cols idx x = None \<Longrightarrow>
     (\<exists>m. book_excel_row accepts rt cols idx x s = Inr (add_error m s))
     \<or> (\<exists>e. book_excel_row accepts rt cols idx x s = Inl e)"
  by (auto simp: primary_missing_def book_excel_row_def book_excel_decode_def
           split: if_splits sum.splits bool.splits)

lemma book_excel_row_conflict:
  "\<not> primary_missing cols ''title'' ''isbn'' x \<Longrightarrow>
   book_excel_decode rt cols idx x = Some r \<Longrightarrow> book_conflict (db s) r \<Longrightarrow>
     \<exists>m. already_exists_error m
       \<and> book_excel_row accepts rt cols idx x s = Inr (add_error m s)"
  using already_exists_suffix
          [of "''Row '' @ show_nat (idx + 2) @ '': Book with ISBN '' @ isbn r"]
  by (auto simp: primary_missing_def book_excel_row_def book_excel_decode_def book_conflict_def
           split: if_splits sum.splits bool.splits)

lemma book_excel_row_persist:
  "\<not> primary_missing cols ''title'' ''isbn'' x \<Longrightarrow>
   book_excel_decode rt cols idx x = Some r \<Longrightarrow> \<not> book_conflict (db s) r \<Longrightarrow>
     book_excel_row accepts rt cols idx x s = persist accepts r s"
  by (auto simp: primary_missing_def book_excel_row_def book_excel_decode_def book_conflict_def
           split: if_splits sum.splits bool.splits)

lemma user_excel_row_skip:
  "primary_missing cols ''full_name'' ''registration_number'' x \<Longrightarrow>
     user_excel_row accepts rt cols idx x s = Inr s"
  by (simp add: primary_missing_def user_excel_row_def)

lemma user_excel_row_undecoded:
  "\<not> primary_missing cols ''full_name'' ''registration_number'' x \<Longrightarrow>
   user_excel_decode rt cols idx x = None \<Longrightarrow>
     \<exists>m. user_excel_row accepts rt cols idx x s = Inr (add_error m s)"
  by (auto simp: primary_missing_def user_excel_row_def user_excel_decode_def
           split: if_splits sum.splits bool.splits)

lemma user_excel_row_conflict:
  "\<not> primary_missing cols ''full_name'' ''registration_number'' x \<Longrightarrow>
   user_excel_decode rt cols idx x = Some r \<Longrightarrow> user_conflict (db s) r \<Longrightarrow>
     \<exists>m. already_exists_error m
       \<and> user_excel_row accepts rt cols idx x s = Inr (add_error m s)"
  by (auto simp: primary_missing_def user_excel_row_def user_excel_decode_def
           intro: user_check_create_conflict split: if_splits sum.splits bool.splits)

lemma user_excel_row_persist:
  "\<not> primary_missing cols ''full_name'' ''registration_number'' x \<Longrightarrow>
   user_excel_decode rt cols idx x = Some r \<Longrightarrow> \<not> user_conflict (db s) r \<Longrightarrow>
     user_excel_row accepts rt cols idx x s = persist accepts r s"
  by (auto simp: primary_missing_def user_excel_row_def user_excel_decode_def
                 user_check_create_persist
           split: if_splits sum.splits bool.splits)

lemma book_txt_row_body:
  "row_body (book_txt_row accepts) blank_line (\<lambda>idx. book_txt_decode) book_conflict accepts"
  unfolding row_body_def
  by (auto simp: book_txt_row_skip book_txt_row_persist
           dest: book_txt_row_undecoded intro: book_txt_row_conflict)

lemma user_txt_row_body:
  "row_body (user_txt_row accepts) blank_line (\<lambda>idx. user_txt_decode) user_conflict accepts"
  unfolding row_body_def
  by (auto simp: user_txt_row_skip user_txt_row_persist
           dest: user_txt_row_undecoded intro: user_txt_row_conflict)

lemma book_excel_row_body:
  "row_body (book_excel_row accepts rt cols) (primary_missing cols ''title'' ''isbn'')
     (book_excel_decode rt cols) book_conflict accepts"
  unfolding row_body_def
  by (auto simp: book_excel_row_skip book_excel_row_persist
           dest: book_excel_row_undecoded intro: book_excel_row_conflict)

lemma user_excel_row_body:
  "row_body (user_excel_row accepts rt cols)
     (primary_missing cols ''full_name'' ''registration_number'')
     (user_excel_decode rt cols) user_conflict accepts"
  unfolding row_body_def
  by (auto simp: user_excel_row_skip user_excel_row_persist
           dest: user_excel_row_undecoded intro: user_excel_row_conflict)

section \<open>What a loop keeps\<close>

lemma row_body_cases:
  assumes rb: "row_body body skip dec conflict accepts"
    and run: "body idx x s = Inr s1"
  shows "(skip x \<and> s1 = s)
       \<or> (\<not> skip x \<and> (\<exists>m. s1 = add_error m s))
       \<or> (\<not> skip x \<and> (\<exists>r. dec idx x = Some r \<and> \<not> conflict (db s) r
              \<and> s1 = s\<lparr>db := db s @ [r], created_count := created_count s + 1\<rparr>))"
proof (cases "skip x")
  case True
  with row_bodyD(1) [OF rb True, of idx s] run show ?thesis by simp
next
  case False
  show ?thesis
  proof (cases "dec idx x")
    case None
    with row_bodyD(2) [OF rb False None, of s] run False show ?thesis by auto
  next
    case (Some r)
    show ?thesis
    proof (cases "conflict (db s) r")
      case True
      with row_bodyD(3) [OF rb False Some True] run False show ?thesis by auto
    next
      case nc: False
      from row_bodyD(4) [OF rb False Some nc] run
      have "persist accepts r s = Inr s1" by simp
      from persist_Inr [OF this] False Some nc show ?thesis by simp
    qed
  qed
qed

lemma loop_grows:
  assumes rb: "row_body body skip dec conflict accepts"
  shows "for_rows body idx xs s = Inr s' \<Longrightarrow>
           (\<exists>es. errs s' = errs s @ es) \<and> (\<exists>new. db s' = db s @ new)"
proof (induction xs arbitrary: idx s)
  case Nil
  then show ?case by simp
next
  case (Cons x xs)
  from Cons.prems obtain s1 where b: "body idx x s = Inr s1"
    and rest: "for_rows body (Suc idx) xs s1 = Inr s'"
    by (auto split: sum.splits)
  from Cons.IH [OF rest] obtain es new
    where g: "errs s' = errs s1 @ es" "db s' = db s1 @ new" by blast
  from row_body_cases [OF rb b] g show ?case by auto
qed

lemma loop_invariant:
  assumes rb: "row_body body skip dec conflict accepts"
    and step: "\<And>tbl r. Inv tbl \<Longrightarrow> \<not> conflict tbl r \<Longrightarrow> Inv (tbl @ [r])"
  shows "for_rows body idx xs s = Inr s' \<Longrightarrow> Inv (db s) \<Longrightarrow> Inv (db s')"
proof (induction xs arbitrary: idx s)
  case Nil
  then show ?case by simp
next
  case (Cons x xs)
  from Cons.prems obtain s1 where b: "body idx x s = Inr s1"
    and rest: "for_rows body (Suc idx) xs s1 = Inr s'"
    by (auto split: sum.splits)
  from row_body_cases [OF rb b] Cons.prems(2) step have "Inv (db s1)" by auto
  with Cons.IH [OF rest] show ?case .
qed

lemma book_conflict_mono: "book_conflict tbl r \<Longrightarrow> book_conflict (tbl @ ys) r"
  by (auto simp: book_conflict_def isbn_exists_def list_ex_iff)

lemma book_conflict_self: "book_conflict (tbl @ [r]) r"
  by (auto simp: book_conflict_def isbn_exists_def list_ex_iff)

lemma user_conflict_mono: "user_conflict tbl r \<Longrightarrow> user_conflict (tbl @ ys) r"
  by (auto simp: user_conflict_def registration_exists_def email_exists_def list_ex_iff)

lemma user_conflict_self: "user_conflict (tbl @ [r]) r"
  by (auto simp: user_conflict_def registration_exists_def email_exists_def list_ex_iff)

lemma book_keys_step:
  "book_keys_unique tbl \<Longrightarrow> \<not> book_conflict tbl r \<Longrightarrow> book_keys_unique (tbl @ [r])"
  by (auto simp: book_keys_unique_def book_conflict_def isbn_exists_def list_ex_iff)

lemma user_keys_step:
  "user_keys_unique tbl \<Longrightarrow> \<not> user_conflict tbl r \<Longrightarrow> user_keys_unique (tbl @ [r])"
  by (auto simp: user_keys_unique_def user_conflict_def registration_exists_def
        email_exists_def list_ex_iff)

section \<open>Created rows and errors\<close>

lemma start_simps [simp]:
  "db (start tbl) = tbl" "created_count (start tbl) = 0" "errs (start tbl) = []"
  by (simp_all add: start_def)

lemma report_eq:
  "report s = (tbl', out) \<Longrightarrow>
     tbl' = db s \<and> created out = created_count s \<and> errors out = errs s"
  by (auto simp: report_def)

lemma book_txt_counts:
  assumes "2 \<le> length (file_lines content)"
    and "split_on CHR ''|'' (strip (hd (file_lines content))) = book_expected_fields"
    and "book_process_txt_file accepts tbl (Some content) = Inr (tbl', out)"
  shows "created out = fst (tally blank_line (\<lambda>idx. book_txt_decode) book_conflict 2 tbl
                              (tl (file_lines content)))"
    and "length (errors out) = snd (tally blank_line (\<lambda>idx. book_txt_decode) book_conflict 2 tbl
                              (tl (file_lines content)))"
proof -
  from assms obtain s where run: "for_rows (book_txt_row accepts) 2
      (tl (file_lines content)) (start tbl) = Inr s"
    and rep: "report s = (tbl', out)"
    by (auto simp: book_process_txt_file_def Let_def split: sum.splits)
  from loop_tally [OF book_txt_row_body run] report_eq [OF rep]
  show "created out = fst (tally blank_line (\<lambda>idx. book_txt_decode) book_conflict 2 tbl
                              (tl (file_lines content)))"
    and "length (errors out) = snd (tally blank_line (\<lambda>idx. book_txt_decode) book_conflict 2 tbl
                              (tl (file_lines content)))"
    by simp_all
qed

lemma user_txt_counts:
  assumes "2 \<le> length (file_lines content)"
    and "split_on CHR ''|'' (strip (hd (file_lines content))) = user_expected_fields"
    and "user_process_txt_file accepts tbl (Some content) = Inr (tbl', out)"
  shows "created out = fst (tally blank_line (\<lambda>idx. user_txt_decode) user_conflict 2 tbl
                              (tl (file_lines content)))"
    and "length (errors out) = snd (tally blank_line (\<lambda>idx. user_txt_decode) user_conflict 2 tbl
                              (tl (file_lines content)))"
proof -
  from assms obtain s where run: "for_rows (user_txt_row accepts) 2
      (tl (file_lines content)) (start tbl) = Inr s"
    and rep: "report s = (tbl', out)"
    by (auto simp: user_process_txt_file_def Let_def split: sum.splits)
  from loop_tally [OF user_txt_row_body run] report_eq [OF rep]
  show "created out = fst (tally blank_line (\<lambda>idx. user_txt_decode) user_conflict 2 tbl
                              (tl (file_lines content)))"
    and "length (errors out) = snd (tally blank_line (\<lambda>idx. user_txt_decode) user_conflict 2 tbl
                              (tl (file_lines content)))"
    by simp_all
qed

lemma book_excel_counts:
  assumes "missing_columns book_expected_fields (normalize_columns (columns df)) = []"
    and "book_process_excel_file accepts rt tbl (Inr df) = Inr (tbl', out)"
  shows "created out = fst (tally (primary_missing (normalize_columns (columns df)) ''title'' ''isbn'')
                              (book_excel_decode rt (normalize_columns (columns df))) book_conflict 0 tbl
                              (rows df))"
    and "length (errors out) = snd (tally (primary_missing (normalize_columns (columns df)) ''title'' ''isbn'')
                              (book_excel_decode rt (normalize_columns (columns df))) book_conflict 0 tbl
                              (rows df))"
proof -
  from assms obtain s where run: "for_rows (book_excel_row accepts rt (normalize_columns (columns df))) 0
      (rows df) (start tbl) = Inr s"
    and rep: "report s = (tbl', out)"
    by (auto simp: book_process_excel_file_def Let_def split: sum.splits if_splits)
  from loop_tally [OF book_excel_row_body run] report_eq [OF rep]
  show "created out = fst (tally (primary_missing (normalize_columns (columns df)) ''title'' ''isbn'')
                              (book_excel_decode rt (normalize_columns (columns df))) book_conflict 0 tbl
                              (rows df))"
    and "length (errors out) = snd (tally (primary_missing (normalize_columns (columns df)) ''title'' ''isbn'')
                              (book_excel_decode rt (normalize_columns (columns df))) book_conflict 0 tbl
                              (rows df))"
    by simp_all
qed

lemma user_excel_counts:
  assumes "missing_columns user_expected_fields (normalize_columns (columns df)) = []"
    and "user_process_excel_file accepts rt tbl (Inr df) = Inr (tbl', out)"
  shows "created out = fst (tally (primary_missing (normalize_columns (columns df)) ''full_name'' ''registration_number'')
                              (user_excel_decode rt (normalize_columns (columns df))) user_conflict 0 tbl
                              (rows df))"
    and "length (errors out) = snd (tally (primary_missing (normalize_columns (columns df)) ''full_name'' ''registration_number'')
                              (user_excel_decode rt (normalize_columns (columns df))) user_conflict 0 tbl
                              (rows df))"
proof -
  from assms obtain s where run: "for_rows (user_excel_row accepts rt (normalize_columns (columns df))) 0
      (rows df) (start tbl) = Inr s"
    and rep: "report s = (tbl', out)"
    by (auto simp: user_process_excel_file_def Let_def split: sum.splits if_splits)
  from loop_tally [OF user_excel_row_body run] report_eq [OF rep]
  show "created out = fst (tally (primary_missing (normalize_columns (columns df)) ''full_name'' ''registration_number'')
                              (user_excel_decode rt (normalize_columns (columns df))) user_conflict 0 tbl
                              (rows df))"
    and "length (errors out) = snd (tally (primary_missing (normalize_columns (columns df)) ''full_name'' ''registration_number'')
                              (user_excel_decode rt (normalize_columns (columns df))) user_conflict 0 tbl
                              (rows df))"
    by simp_all
qed

text \<open>
  C1. When the header (text) or the columns (spreadsheet) validate, the outcome an import
  returns has \<open>created\<close> equal to the number of candidate rows that decode, coerce and
  pass the uniqueness check against the collection persisted so far, and \<open>errors\<close> as
  long as the number of candidate rows that fail one of these (a wrong field count is a
  failure to decode). Blank lines and rows without a primary field are no candidates:
  the two numbers add up to the number of the other rows. For books and for users, for
  text files and for spreadsheets.
\<close>

theorem C1_created_and_error_counts:
  "(2 \<le> length (file_lines content)
    \<and> split_on CHR ''|'' (strip (hd (file_lines content))) = book_expected_fields
    \<and> book_process_txt_file accepts tbl (Some content) = Inr (tbl', out)
    \<longrightarrow> created out
          = fst (tally blank_line (\<lambda>idx. book_txt_decode) book_conflict 2 tbl (tl (file_lines content)))
      \<and> length (errors out)
          = snd (tally blank_line (\<lambda>idx. book_txt_decode) book_conflict 2 tbl (tl (file_lines content)))
      \<and> created out + length (errors out)
          = length (filter (\<lambda>l. \<not> blank_line l) (tl (file_lines content))))
   \<and> (2 \<le> length (file_lines ucontent)
    \<and> split_on CHR ''|'' (strip (hd (file_lines ucontent))) = user_expected_fields
    \<and> user_process_txt_file uaccepts utbl (Some ucontent) = Inr (utbl', uout)
    \<longrightarrow> created uout
          = fst (tally blank_line (\<lambda>idx. user_txt_decode) user_conflict 2 utbl (tl (file_lines ucontent)))
      \<and> length (errors uout)
          = snd (tally blank_line (\<lambda>idx. user_txt_decode) user_conflict 2 utbl (tl (file_lines ucontent)))
      \<and> created uout + length (errors uout)
          = length (filter (\<lambda>l. \<not> blank_line l) (tl (file_lines ucontent))))
   \<and> (missing_columns book_expected_fields (normalize_columns (columns df)) = []
    \<and> book_process_excel_file xaccepts xrt xtbl (Inr df) = Inr (xtbl', xout)
    \<longrightarrow> created xout
          = fst (tally (primary_missing (normalize_columns (columns df)) ''title'' ''isbn'')
                   (book_excel_decode xrt (normalize_columns (columns df))) book_conflict 0 xtbl
                   (rows df))
      \<and> length (errors xout)
          = snd (tally (primary_missing (normalize_columns (columns df)) ''title'' ''isbn'')
                   (book_excel_decode xrt (normalize_columns (columns df))) book_conflict 0 xtbl
                   (rows df))
      \<and> created xout + length (errors xout)
          = length (filter
              (\<lambda>r. \<not> primary_missing (normalize_columns (columns df)) ''title'' ''isbn'' r)
              (rows df)))
   \<and> (missing_columns user_expected_fields (normalize_columns (columns udf)) = []
    \<and> user_process_excel_file yaccepts yrt ytbl (Inr udf) = Inr (ytbl', yout)
    \<longrightarrow> created yout
          = fst (tally (primary_missing (normalize_columns (columns udf)) ''full_name''
                      ''registration_number'')
                   (user_excel_decode yrt (normalize_columns (columns udf))) user_conflict 0 ytbl
                   (rows udf))
      \<and> length (errors yout)
          = snd (tally (primary_missing (normalize_columns (columns udf)) ''full_name''
                      ''registration_number'')
                   (user_excel_decode yrt (normalize_columns (columns udf))) user_conflict 0 ytbl
                   (rows udf))
      \<and> created yout + length (errors yout)
          = length (filter
              (\<lambda>r. \<not> primary_missing (normalize_columns (columns udf)) ''full_name''
                      ''registration_number'' r)
              (rows udf)))"
  using book_txt_counts [of content accepts tbl tbl' out]
    user_txt_counts [of ucontent uaccepts utbl utbl' uout]
    book_excel_counts [of df xaccepts xrt xtbl xtbl' xout]
    user_excel_counts [of udf yaccepts yrt ytbl ytbl' yout]
  by (simp add: tally_total)

theorem C1_created_and_error_counts_witness:
  "2 \<le> length (file_lines books_txt)
   \<and> split_on CHR ''|'' (strip (hd (file_lines books_txt))) = book_expected_fields
   \<and> book_process_txt_file accept_all [] (Some books_txt)
       = Inr ([clean_code],
              \<lparr>success = True, created = 1,
               errors = [''Line 3: Expected 7 fields, got 2'']\<rparr>)
   \<and> tally blank_line (\<lambda>idx. book_txt_decode) book_conflict 2 [] (tl (file_lines books_txt)) = (1, 1)
   \<and> 2 \<le> length (file_lines users_txt)
   \<and> split_on CHR ''|'' (strip (hd (file_lines users_txt))) = user_expected_fields
   \<and> user_process_txt_file accept_all [] (Some users_txt)
       = Inr ([john_doe],
              \<lparr>success = True, created = 1,
               errors = [''Line 3: Expected 6 fields, got 2'']\<rparr>)
   \<and> tally blank_line (\<lambda>idx. user_txt_decode) user_conflict 2 [] (tl (file_lines users_txt)) = (1, 1)
   \<and> missing_columns book_expected_fields (normalize_columns (columns books_frame)) = []
   \<and> book_process_excel_file accept_all plain [] (Inr books_frame)
       = Inr ([clean_code],
              \<lparr>success = True, created = 1,
               errors = [''Row 4: Book with ISBN 9780132350884 already exists'']\<rparr>)
   \<and> tally (primary_missing (normalize_columns (columns books_frame)) ''title'' ''isbn'')
        (book_excel_decode plain (normalize_columns (columns books_frame))) book_conflict 0 []
        (rows books_frame) = (1, 1)
   \<and> length (filter
        (\<lambda>r. \<not> primary_missing (normalize_columns (columns books_frame)) ''title'' ''isbn'' r)
        (rows books_frame)) = 2
   \<and> missing_columns user_expected_fields (normalize_columns (columns users_frame)) = []
   \<and> user_process_excel_file accept_all plain [] (Inr users_frame)
       = Inr ([john_doe],
              \<lparr>success = True, created = 1,
               errors = [''Row 4: User with email john@example.com already exists'']\<rparr>)
   \<and> tally (primary_missing (normalize_columns (columns users_frame)) ''full_name''
           ''registration_number'')
        (user_excel_decode plain (normalize_columns (columns users_frame))) user_conflict 0 []
        (rows users_frame) = (1, 1)"
proof -
  have b1: "2 \<le> length (file_lines books_txt)" by code_simp
  have b2: "split_on CHR ''|'' (strip (hd (file_lines books_txt))) = book_expected_fields"
    by code_simp
  have b3: "book_process_txt_file accept_all [] (Some books_txt)
       = Inr ([clean_code],
              \<lparr>success = True, created = 1,
               errors = [''Line 3: Expected 7 fields, got 2'']\<rparr>)"
    by code_simp
  have u1: "2 \<le> length (file_lines users_txt)" by code_simp
  have u2: "split_on CHR ''|'' (strip (hd (file_lines users_txt))) = user_expected_fields"
    by code_simp
  have u3: "user_process_txt_file accept_all [] (Some users_txt)
       = Inr ([john_doe],
              \<lparr>success = True, created = 1,
               errors = [''Line 3: Expected 6 fields, got 2'']\<rparr>)"
    by code_simp
  have x1: "missing_columns book_expected_fields (normalize_columns (columns books_frame)) = []"
    by code_simp
  have x2: "book_process_excel_file accept_all plain [] (Inr books_frame)
       = Inr ([clean_code],
              \<lparr>success = True, created = 1,
               errors = [''Row 4: Book with ISBN 9780132350884 already exists'']\<rparr>)"
    by code_simp
  have y1: "missing_columns user_expected_fields (normalize_columns (columns users_frame)) = []"
    by code_simp
  have y2: "user_process_excel_file accept_all plain [] (Inr users_frame)
       = Inr ([john_doe],
              \<lparr>success = True, created = 1,
               errors = [''Row 4: User with email john@example.com already exists'']\<rparr>)"
    by code_simp
  from C1_created_and_error_counts
         [where content = books_txt and accepts = accept_all and tbl = "[]"
            and tbl' = "[clean_code]"
            and out = "\<lparr>success = True, created = 1,
                           errors = [''Line 3: Expected 7 fields, got 2'']\<rparr>"
            and ucontent = users_txt and uaccepts = accept_all and utbl = "[]"
            and utbl' = "[john_doe]"
            and uout = "\<lparr>success = True, created = 1,
                           errors = [''Line 3: Expected 6 fields, got 2'']\<rparr>"
            and df = books_frame and xaccepts = accept_all and xrt = plain and xtbl = "[]"
            and xtbl' = "[clean_code]"
            and xout = "\<lparr>success = True, created = 1,
                 errors = [''Row 4: Book with ISBN 9780132350884 already exists'']\<rparr>"
            and udf = users_frame and yaccepts = accept_all and yrt = plain and ytbl = "[]"
            and ytbl' = "[john_doe]"
            and yout = "\<lparr>success = True, created = 1,
                 errors = [''Row 4: User with email john@example.com already exists'']\<rparr>"]
       b1 b2 b3 u1 u2 u3 x1 x2 y1 y2
  show ?thesis
    by (simp add: prod_eq_iff)
qed

section \<open>Lines with a wrong number of fields\<close>

lemma show_nat_digit: "show_nat 6 = ''6''" "show_nat 7 = ''7''"
  by (simp_all add: show_nat.simps)

lemma expected_length:
  "length book_expected_fields = 7" "length user_expected_fields = 6"
  by (simp_all add: book_expected_fields_def user_expected_fields_def)

lemma book_txt_row_short:
  "strip line \<noteq> [] \<Longrightarrow> length (split_on CHR ''|'' (strip line)) \<noteq> 7 \<Longrightarrow>
     book_txt_row accepts idx line s
       = Inr (add_error (''Line '' @ show_nat idx @ '': Expected 7 fields, got ''
                @ show_nat (length (split_on CHR ''|'' (strip line)))) s)"
  by (simp add: book_txt_row_def Let_def expected_length txt_count_error_def
        show_nat_digit)

lemma user_txt_row_short:
  "strip line \<noteq> [] \<Longrightarrow> length (split_on CHR ''|'' (strip line)) \<noteq> 6 \<Longrightarrow>
     user_txt_row accepts idx line s
       = Inr (add_error (''Line '' @ show_nat idx @ '': Expected 6 fields, got ''
                @ show_nat (length (split_on CHR ''|'' (strip line)))) s)"
  by (simp add: user_txt_row_def Let_def expected_length txt_count_error_def
        show_nat_digit)

lemma for_rows_middle:
  assumes "\<And>s. body (idx + length pre) x s = Inr (f s)"
  shows "for_rows body idx (pre @ x # post) s =
     (case for_rows body idx pre s of
        Inl e \<Rightarrow> Inl e
      | Inr s1 \<Rightarrow> for_rows body (Suc (idx + length pre)) post (f s1))"
  using assms by (simp add: for_rows_append split: sum.splits)

lemma book_txt_short_line:
  assumes "strip line \<noteq> []" and "length (split_on CHR ''|'' (strip line)) \<noteq> 7"
  shows "for_rows (book_txt_row accepts) 2 (pre @ line # post) s =
     (case for_rows (book_txt_row accepts) 2 pre s of
        Inl e \<Rightarrow> Inl e
      | Inr s1 \<Rightarrow>
          for_rows (book_txt_row accepts) (length pre + 3) post
            (add_error
               (''Line '' @ show_nat (length pre + 2) @ '': Expected 7 fields, got ''
                  @ show_nat (length (split_on CHR ''|'' (strip line)))) s1))"
proof -
  have row: "\<And>s. book_txt_row accepts (2 + length pre) line s
      = Inr (add_error (''Line '' @ show_nat (length pre + 2) @ '': Expected 7 fields, got ''
                @ show_nat (length (split_on CHR ''|'' (strip line)))) s)"
    using assms by (simp add: book_txt_row_short add.commute)
  have e: "length pre + 3 = Suc (2 + length pre)" by simp
  show ?thesis
    unfolding e
    by (rule for_rows_middle [where body = "book_txt_row accepts" and idx = 2 and pre = pre
          and x = line and post = post and s = s
          and f = "add_error
                (''Line '' @ show_nat (length pre + 2) @ '': Expected 7 fields, got ''
                   @ show_nat (length (split_on CHR ''|'' (strip line))))", OF row])
qed

lemma user_txt_short_line:
  assumes "strip line \<noteq> []" and "length (split_on CHR ''|'' (strip line)) \<noteq> 6"
  shows "for_rows (user_txt_row accepts) 2 (pre @ line # post) s =
     (case for_rows (user_txt_row accepts) 2 pre s of
        Inl e \<Rightarrow> Inl e
      | Inr s1 \<Rightarrow>
          for_rows (user_txt_row accepts) (length pre + 3) post
            (add_error
               (''Line '' @ show_nat (length pre + 2) @ '': Expected 6 fields, got ''
                  @ show_nat (length (split_on CHR ''|'' (strip line)))) s1))"
proof -
  have row: "\<And>s. user_txt_row accepts (2 + length pre) line s
      = Inr (add_error (''Line '' @ show_nat (length pre + 2) @ '': Expected 6 fields, got ''
                @ show_nat (length (split_on CHR ''|'' (strip line)))) s)"
    using assms by (simp add: user_txt_row_short add.commute)
  have e: "length pre + 3 = Suc (2 + length pre)" by simp
  show ?thesis
    unfolding e
    by (rule for_rows_middle [where body = "user_txt_row accepts" and idx = 2 and pre = pre
          and x = line and post = post and s = s
          and f = "add_error
                (''Line '' @ show_nat (length pre + 2) @ '': Expected 6 fields, got ''
                   @ show_nat (length (split_on CHR ''|'' (strip line))))", OF row])
qed

lemma split_on_nonempty: "split_on d xs \<noteq> []"
  by (induction xs) (auto split: list.splits)

lemma split_on_Cons:
  "split_on d (c # cs) =
     (if c = d then [] # split_on d cs
      else (c # hd (split_on d cs)) # tl (split_on d cs))"
  using split_on_nonempty [of d cs] by (cases "split_on d cs") auto

lemma split_on_append:
  "split_on d (xs @ ys) =
     butlast (split_on d xs) @ (last (split_on d xs) @ hd (split_on d ys)) # tl (split_on d ys)"
proof (induction xs)
  case Nil
  then show ?case using split_on_nonempty [of d ys] by simp
next
  case (Cons c xs)
  obtain bs l where S: "split_on d xs = bs @ [l]"
    using split_on_nonempty [of d xs] by (cases "split_on d xs" rule: rev_cases) auto
  show ?case
  proof (cases "c = d")
    case True
    with Cons S show ?thesis by simp
  next
    case False
    with Cons S show ?thesis
      by (cases bs) (simp_all add: split_on_Cons del: split_on.simps)
  qed
qed

lemma set_hd_split_on: "set (hd (split_on d xs)) \<subseteq> set xs"
proof (induction xs)
  case Nil
  then show ?case by simp
next
  case (Cons c xs)
  then show ?case by (auto simp: split_on_Cons simp del: split_on.simps)
qed

lemma strip_append_spaces:
  assumes "\<forall>x\<in>set h. is_space x"
  shows "strip (l @ h) = strip l"
proof (cases "\<forall>x\<in>set l. is_space x")
  case True
  with assms have "dropWhile is_space (l @ h) = []" "dropWhile is_space l = []"
    unfolding dropWhile_eq_Nil_conv by auto
  then show ?thesis by (simp only: strip_def)
next
  case False
  then have "dropWhile is_space (l @ h) = dropWhile is_space l @ h"
    by (auto simp: dropWhile_append1)
  moreover from assms
  have "dropWhile is_space (rev h @ rev (dropWhile is_space l))
          = dropWhile is_space (rev (dropWhile is_space l))"
    by (intro dropWhile_append2) simp
  ultimately show ?thesis by (simp only: strip_def rev_append)
qed

lemma strip_prefix:
  assumes "content \<noteq> []" and "\<not> is_space (hd content)"
  shows "\<exists>w. content = strip content @ w \<and> (\<forall>x\<in>set w. is_space x)"
proof -
  from assms have "dropWhile is_space content = content"
    by (cases content) simp_all
  then have s: "strip content = rev (dropWhile is_space (rev content))"
    by (simp add: strip_def)
  have "rev content = takeWhile is_space (rev content) @ dropWhile is_space (rev content)"
    by simp
  then have "content = rev (dropWhile is_space (rev content))
                         @ rev (takeWhile is_space (rev content))"
    by (metis rev_append rev_rev_ident)
  with s have "content = strip content @ rev (takeWhile is_space (rev content))" by simp
  moreover have "\<forall>x\<in>set (rev (takeWhile is_space (rev content))). is_space x"
    by (auto dest: set_takeWhileD)
  ultimately show ?thesis by blast
qed

lemma file_lines_physical:
  assumes "content \<noteq> []" and "\<not> is_space (hd content)" and "k < length (file_lines content)"
  shows "k < length (split_on CHR 0x0A content)
       \<and> strip (split_on CHR 0x0A content ! k) = strip (file_lines content ! k)"
proof -
  from strip_prefix [OF assms(1,2)] obtain w
    where c: "content = strip content @ w" and w: "\<forall>x\<in>set w. is_space x" by blast
  define S where "S = split_on CHR 0x0A (strip content)"
  define h where "h = hd (split_on CHR 0x0A w)"
  define t where "t = tl (split_on CHR 0x0A w)"
  have ne: "S \<noteq> []" unfolding S_def by (rule split_on_nonempty)
  have k: "k < length S" using assms(3) by (simp add: S_def file_lines_def)
  have hs: "\<forall>x\<in>set h. is_space x"
    using w set_hd_split_on [of "CHR 0x0A" w] by (auto simp: h_def)
  have "split_on CHR 0x0A (strip content @ w) = butlast S @ (last S @ h) # t"
    unfolding S_def h_def t_def by (rule split_on_append)
  with c have sp: "split_on CHR 0x0A content = butlast S @ (last S @ h) # t" by simp
  have S: "S = butlast S @ [last S]" using ne by simp
  show ?thesis
  proof (cases "k < length (butlast S)")
    case True
    then have "(butlast S @ (last S @ h) # t) ! k = butlast S ! k"
      by (simp add: nth_append)
    moreover from True have "S ! k = butlast S ! k"
      by (simp add: nth_butlast)
    ultimately show ?thesis using sp True by (simp add: S_def file_lines_def)
  next
    case False
    with k have kl: "k = length (butlast S)" by simp
    have "(butlast S @ (last S @ h) # t) ! length (butlast S) = last S @ h"
      by (rule nth_append_length)
    with kl have "(butlast S @ (last S @ h) # t) ! k = last S @ h" by simp
    moreover from kl ne have "S ! k = last S"
      by (simp add: last_conv_nth)
    ultimately show ?thesis
      using sp kl hs by (simp add: S_def [symmetric] file_lines_def strip_append_spaces)
  qed
qed

text \<open>
  C4. In a text file whose header validates, take a data line that is not blank and whose
  number of \<open>|\<close>-separated fields \<open>m\<close> differs from the expected number \<open>k\<close> (7 for
  books, 6 for users), with \<open>pre\<close> the data lines before it and \<open>post\<close> those after it.
  The import runs the lines of \<open>pre\<close>, then adds the one error
  \<open>Line n: Expected k fields, got m\<close> to the session and changes nothing else in it (no
  row is persisted or counted), then goes on with the lines of \<open>post\<close>, and reports. The
  number \<open>n\<close> is the position of the line among the lines of the file, the header being
  line 1: the import numbers the lines of the trimmed content, and when the upload begins
  with its header, these are, line by line and up to surrounding whitespace, the lines of
  the upload itself.
\<close>

theorem C4_wrong_field_count:
  "(file_lines content = header # pre @ line # post
    \<and> split_on CHR ''|'' (strip header) = book_expected_fields
    \<and> strip line \<noteq> []
    \<and> length (split_on CHR ''|'' (strip line)) \<noteq> 7
    \<longrightarrow> book_process_txt_file accepts tbl (Some content)
        = (case for_rows (book_txt_row accepts) 2 pre (start tbl) of
             Inl e \<Rightarrow> Inl e
           | Inr s1 \<Rightarrow>
               (case for_rows (book_txt_row accepts) (length pre + 3) post
                       (add_error
                          (''Line '' @ show_nat (length pre + 2) @ '': Expected 7 fields, got ''
                             @ show_nat (length (split_on CHR ''|'' (strip line)))) s1) of
                  Inl e \<Rightarrow> Inl e
                | Inr s2 \<Rightarrow> Inr (report s2))))
   \<and> (file_lines ucontent = uheader # upre @ uline # upost
    \<and> split_on CHR ''|'' (strip uheader) = user_expected_fields
    \<and> strip uline \<noteq> []
    \<and> length (split_on CHR ''|'' (strip uline)) \<noteq> 6
    \<longrightarrow> user_process_txt_file uaccepts utbl (Some ucontent)
        = (case for_rows (user_txt_row uaccepts) 2 upre (start utbl) of
             Inl e \<Rightarrow> Inl e
           | Inr s1 \<Rightarrow>
               (case for_rows (user_txt_row uaccepts) (length upre + 3) upost
                       (add_error
                          (''Line '' @ show_nat (length upre + 2) @ '': Expected 6 fields, got ''
                             @ show_nat (length (split_on CHR ''|'' (strip uline)))) s1) of
                  Inl e \<Rightarrow> Inl e
                | Inr s2 \<Rightarrow> Inr (report s2))))
   \<and> (upload \<noteq> [] \<and> \<not> is_space (hd upload) \<and> p < length (file_lines upload)
    \<longrightarrow> p < length (split_on CHR 0x0A upload)
      \<and> strip (split_on CHR 0x0A upload ! p) = strip (file_lines upload ! p))"
  using file_lines_physical [of upload p]
  by (auto simp: book_process_txt_file_def user_process_txt_file_def Let_def
        book_txt_short_line user_txt_short_line split: sum.splits)

theorem C4_wrong_field_count_witness:
  "file_lines books_short_first = book_header # [] @ ''Invalid Book|Author'' # [clean_code_line]
   \<and> split_on CHR ''|'' (strip book_header) = book_expected_fields
   \<and> strip ''Invalid Book|Author'' \<noteq> []
   \<and> length (split_on CHR ''|'' (strip ''Invalid Book|Author'')) \<noteq> 7
   \<and> book_process_txt_file accept_all [] (Some books_short_first)
       = Inr ([clean_code],
              \<lparr>success = True, created = 1,
               errors = [''Line 2: Expected 7 fields, got 2'']\<rparr>)
   \<and> file_lines users_short_first = user_header # [] @ ''Jane Doe|jane'' # [john_doe_line]
   \<and> split_on CHR ''|'' (strip user_header) = user_expected_fields
   \<and> strip ''Jane Doe|jane'' \<noteq> []
   \<and> length (split_on CHR ''|'' (strip ''Jane Doe|jane'')) \<noteq> 6
   \<and> user_process_txt_file accept_all [] (Some users_short_first)
       = Inr ([john_doe],
              \<lparr>success = True, created = 1,
               errors = [''Line 2: Expected 6 fields, got 2'']\<rparr>)
   \<and> books_short_first \<noteq> [] \<and> \<not> is_space (hd books_short_first)
   \<and> 1 < length (file_lines books_short_first)
   \<and> 1 < length (split_on CHR 0x0A books_short_first)
   \<and> strip (split_on CHR 0x0A books_short_first ! 1) = strip (file_lines books_short_first ! 1)"
proof -
  have p1: "books_short_first \<noteq> [] \<and> \<not> is_space (hd books_short_first)
              \<and> 1 < length (file_lines books_short_first)"
    by code_simp
  note p2 = C4_wrong_field_count
      [where upload = books_short_first and p = 1, THEN conjunct2, THEN conjunct2, THEN mp,
       OF p1]
  have b1: "file_lines books_short_first
              = book_header # [] @ ''Invalid Book|Author'' # [clean_code_line]"
    by code_simp
  have b2: "split_on CHR ''|'' (strip book_header) = book_expected_fields" by code_simp
  have b3: "strip ''Invalid Book|Author'' \<noteq> []" by code_simp
  have b4: "length (split_on CHR ''|'' (strip ''Invalid Book|Author'')) \<noteq> 7" by code_simp
  have b5: "(case for_rows (book_txt_row accept_all) 2 [] (start []) of
             Inl e \<Rightarrow> Inl e
           | Inr s1 \<Rightarrow>
               (case for_rows (book_txt_row accept_all) (length ([] :: string list) + 3)
                       [clean_code_line]
                       (add_error
                          (''Line '' @ show_nat (length ([] :: string list) + 2)
                             @ '': Expected 7 fields, got ''
                             @ show_nat (length (split_on CHR ''|''
                                  (strip ''Invalid Book|Author'')))) s1) of
                  Inl e \<Rightarrow> Inl e
                | Inr s2 \<Rightarrow> Inr (report s2)))
           = Inr ([clean_code],
              \<lparr>success = True, created = 1,
               errors = [''Line 2: Expected 7 fields, got 2'']\<rparr>)"
    by code_simp
  have u1: "file_lines users_short_first
              = user_header # [] @ ''Jane Doe|jane'' # [john_doe_line]"
    by code_simp
  have u2: "split_on CHR ''|'' (strip user_header) = user_expected_fields" by code_simp
  have u3: "strip ''Jane Doe|jane'' \<noteq> []" by code_simp
  have u4: "length (split_on CHR ''|'' (strip ''Jane Doe|jane'')) \<noteq> 6" by code_simp
  have u5: "(case for_rows (user_txt_row accept_all) 2 [] (start []) of
             Inl e \<Rightarrow> Inl e
           | Inr s1 \<Rightarrow>
               (case for_rows (user_txt_row accept_all) (length ([] :: string list) + 3)
                       [john_doe_line]
                       (add_error
                          (''Line '' @ show_nat (length ([] :: string list) + 2)
                             @ '': Expected 6 fields, got ''
                             @ show_nat (length (split_on CHR ''|''
                                  (strip ''Jane Doe|jane'')))) s1) of
                  Inl e \<Rightarrow> Inl e
                | Inr s2 \<Rightarrow> Inr (report s2)))
           = Inr ([john_doe],
              \<lparr>success = True, created = 1,
               errors = [''Line 2: Expected 6 fields, got 2'']\<rparr>)"
    by code_simp
  from C4_wrong_field_count
         [where content = books_short_first and header = book_header and pre = "[]"
            and line = "''Invalid Book|Author''" and post = "[clean_code_line]"
            and accepts = accept_all and tbl = "[]"
            and ucontent = users_short_first and uheader = user_header and upre = "[]"
            and uline = "''Jane Doe|jane''" and upost = "[john_doe_line]"
            and uaccepts = accept_all and utbl = "[]"]
       b1 b2 b3 b4 u1 u2 u3 u4
  have "book_process_txt_file accept_all [] (Some books_short_first)
       = Inr ([clean_code],
              \<lparr>success = True, created = 1,
               errors = [''Line 2: Expected 7 fields, got 2'']\<rparr>)"
    and "user_process_txt_file accept_all [] (Some users_short_first)
       = Inr ([john_doe],
              \<lparr>success = True, created = 1,
               errors = [''Line 2: Expected 6 fields, got 2'']\<rparr>)"
    unfolding b5 [symmetric] u5 [symmetric] by blast+
  with b1 b2 b3 b4 u1 u2 u3 u4 p1 p2 show ?thesis by blast
qed

section \<open>Registration number before email\<close>

lemma user_txt_row_decoded:
  "user_txt_decode line = Some data \<Longrightarrow>
     user_txt_row accepts idx line s
       = user_check_create accepts (''Line '' @ show_nat idx) data s"
  by (cases "strip line = []")
     (auto simp: user_txt_decode_def user_txt_row_def Let_def expected_length
           split: if_splits sum.splits)

lemma user_excel_row_decoded:
  "\<not> primary_missing cols ''full_name'' ''registration_number'' row \<Longrightarrow>
   user_excel_decode rt cols idx row = Some data \<Longrightarrow>
     user_excel_row accepts rt cols idx row s
       = user_check_create accepts (''Row '' @ show_nat (idx + 2)) data s"
  by (auto simp: primary_missing_def user_excel_decode_def user_excel_row_def
           split: sum.splits bool.splits)

lemma registration_first:
  "registration_exists (db s) (registration_number data) \<Longrightarrow>
     user_check_create accepts place data s
       = Inr (add_error (place @ '': User with registration '' @ registration_number data
                           @ '' already exists'') s)"
  by (simp add: user_check_create_def)

lemma email_second:
  "\<not> registration_exists (db s) (registration_number data) \<Longrightarrow>
   email_exists (db s) (email data) \<Longrightarrow>
     user_check_create accepts place data s
       = Inr (add_error (place @ '': User with email '' @ email data
                           @ '' already exists'') s)"
  by (simp add: user_check_create_def)

text \<open>
  C6. A user row that decodes and whose registration number is already persisted gets the
  registration error, whether or not its email is persisted too: the registration check
  comes first, and the email error is given only when the registration number is free and
  the email is taken. In both cases the error is the only change to the session (nothing
  is persisted or counted) and the loop goes on with the next row. For text lines and for
  spreadsheet rows.
\<close>

theorem C6_registration_before_email:
  "(user_txt_decode line = Some data
    \<and> registration_exists (db s) (registration_number data)
    \<longrightarrow> for_rows (user_txt_row accepts) idx (line # rest) s
        = for_rows (user_txt_row accepts) (Suc idx) rest
            (add_error (''Line '' @ show_nat idx @ '': User with registration ''
                          @ registration_number data @ '' already exists'') s))
   \<and> (user_txt_decode line = Some data
    \<and> \<not> registration_exists (db s) (registration_number data)
    \<and> email_exists (db s) (email data)
    \<longrightarrow> for_rows (user_txt_row accepts) idx (line # rest) s
        = for_rows (user_txt_row accepts) (Suc idx) rest
            (add_error (''Line '' @ show_nat idx @ '': User with email ''
                          @ email data @ '' already exists'') s))
   \<and> (\<not> primary_missing cols ''full_name'' ''registration_number'' row
    \<and> user_excel_decode rt cols idx row = Some xdata
    \<and> registration_exists (db s) (registration_number xdata)
    \<longrightarrow> for_rows (user_excel_row accepts rt cols) idx (row # xrest) s
        = for_rows (user_excel_row accepts rt cols) (Suc idx) xrest
            (add_error (''Row '' @ show_nat (idx + 2) @ '': User with registration ''
                          @ registration_number xdata @ '' already exists'') s))
   \<and> (\<not> primary_missing cols ''full_name'' ''registration_number'' row
    \<and> user_excel_decode rt cols idx row = Some xdata
    \<and> \<not> registration_exists (db s) (registration_number xdata)
    \<and> email_exists (db s) (email xdata)
    \<longrightarrow> for_rows (user_excel_row accepts rt cols) idx (row # xrest) s
        = for_rows (user_excel_row accepts rt cols) (Suc idx) xrest
            (add_error (''Row '' @ show_nat (idx + 2) @ '': User with email ''
                          @ email xdata @ '' already exists'') s))
   \<and> db (add_error msg s) = db s
   \<and> created_count (add_error msg s) = created_count s
   \<and> errs (add_error msg s) = errs s @ [msg]"
  by (simp add: user_txt_row_decoded user_excel_row_decoded registration_first email_second)

theorem C6_registration_before_email_witness:
  "user_txt_decode johnny_line = Some johnny
   \<and> registration_exists [john_doe] (registration_number johnny)
   \<and> email_exists [john_doe] (email johnny)
   \<and> for_rows (user_txt_row accept_all) 2 [johnny_line] (start [john_doe])
       = Inr \<lparr>db = [john_doe], created_count = 0,
              errs = [''Line 2: User with registration REG001 already exists'']\<rparr>
   \<and> user_txt_decode jim_line = Some jim
   \<and> \<not> registration_exists [john_doe] (registration_number jim)
   \<and> email_exists [john_doe] (email jim)
   \<and> for_rows (user_txt_row accept_all) 2 [jim_line] (start [john_doe])
       = Inr \<lparr>db = [john_doe], created_count = 0,
              errs = [''Line 2: User with email john@example.com already exists'']\<rparr>
   \<and> \<not> primary_missing user_expected_fields ''full_name'' ''registration_number'' johnny_row
   \<and> user_excel_decode plain user_expected_fields 0 johnny_row = Some johnny
   \<and> for_rows (user_excel_row accept_all plain user_expected_fields) 0 [johnny_row] (start [john_doe])
       = Inr \<lparr>db = [john_doe], created_count = 0,
              errs = [''Row 2: User with registration REG001 already exists'']\<rparr>
   \<and> \<not> primary_missing user_expected_fields ''full_name'' ''registration_number'' jim_row
   \<and> user_excel_decode plain user_expected_fields 0 jim_row = Some jim
   \<and> for_rows (user_excel_row accept_all plain user_expected_fields) 0 [jim_row] (start [john_doe])
       = Inr \<lparr>db = [john_doe], created_count = 0,
              errs = [''Row 2: User with email john@example.com already exists'']\<rparr>"
proof -
  have d1: "user_txt_decode johnny_line = Some johnny" by code_simp
  have r1: "registration_exists (db (start [john_doe])) (registration_number johnny)"
    by code_simp
  have e1: "email_exists (db (start [john_doe])) (email johnny)" by code_simp
  have d2: "user_txt_decode jim_line = Some jim" by code_simp
  have r2: "\<not> registration_exists (db (start [john_doe])) (registration_number jim)"
    by code_simp
  have e2: "email_exists (db (start [john_doe])) (email jim)" by code_simp
  have p3: "\<not> primary_missing user_expected_fields ''full_name'' ''registration_number''
               johnny_row"
    by code_simp
  have d3: "user_excel_decode plain user_expected_fields 0 johnny_row = Some johnny" by code_simp
  have p4: "\<not> primary_missing user_expected_fields ''full_name'' ''registration_number''
               jim_row"
    by code_simp
  have d4: "user_excel_decode plain user_expected_fields 0 jim_row = Some jim" by code_simp
  have v1: "for_rows (user_txt_row accept_all) (Suc 2) []
            (add_error (''Line '' @ show_nat 2 @ '': User with registration ''
                          @ registration_number johnny @ '' already exists'')
               (start [john_doe]))
       = Inr \<lparr>db = [john_doe], created_count = 0,
              errs = [''Line 2: User with registration REG001 already exists'']\<rparr>"
    by code_simp
  have v2: "for_rows (user_txt_row accept_all) (Suc 2) []
            (add_error (''Line '' @ show_nat 2 @ '': User with email ''
                          @ email jim @ '' already exists'')
               (start [john_doe]))
       = Inr \<lparr>db = [john_doe], created_count = 0,
              errs = [''Line 2: User with email john@example.com already exists'']\<rparr>"
    by code_simp
  have v3: "for_rows (user_excel_row accept_all plain user_expected_fields) (Suc 0) []
            (add_error (''Row '' @ show_nat (0 + 2) @ '': User with registration ''
                          @ registration_number johnny @ '' already exists'')
               (start [john_doe]))
       = Inr \<lparr>db = [john_doe], created_count = 0,
              errs = [''Row 2: User with registration REG001 already exists'']\<rparr>"
    by code_simp
  have v4: "for_rows (user_excel_row accept_all plain user_expected_fields) (Suc 0) []
            (add_error (''Row '' @ show_nat (0 + 2) @ '': User with email ''
                          @ email jim @ '' already exists'')
               (start [john_doe]))
       = Inr \<lparr>db = [john_doe], created_count = 0,
              errs = [''Row 2: User with email john@example.com already exists'']\<rparr>"
    by code_simp
  have t1: "for_rows (user_txt_row accept_all) 2 [johnny_line] (start [john_doe])
       = Inr \<lparr>db = [john_doe], created_count = 0,
              errs = [''Line 2: User with registration REG001 already exists'']\<rparr>"
    using C6_registration_before_email
      [where line = johnny_line and data = johnny and s = "start [john_doe]"
         and accepts = accept_all and idx = 2 and rest = "[]"] d1 r1 v1
    by metis
  have t2: "for_rows (user_txt_row accept_all) 2 [jim_line] (start [john_doe])
       = Inr \<lparr>db = [john_doe], created_count = 0,
              errs = [''Line 2: User with email john@example.com already exists'']\<rparr>"
    using C6_registration_before_email
      [where line = jim_line and data = jim and s = "start [john_doe]"
         and accepts = accept_all and idx = 2 and rest = "[]"] d2 r2 e2 v2
    by metis
  have t3: "for_rows (user_excel_row accept_all plain user_expected_fields) 0 [johnny_row]
         (start [john_doe])
       = Inr \<lparr>db = [john_doe], created_count = 0,
              errs = [''Row 2: User with registration REG001 already exists'']\<rparr>"
    using C6_registration_before_email
      [where s = "start [john_doe]" and accepts = accept_all and idx = 0
         and rt = plain and cols = user_expected_fields and row = johnny_row and xdata = johnny
         and xrest = "[]"] p3 d3 r1 v3
    by metis
  have t4: "for_rows (user_excel_row accept_all plain user_expected_fields) 0 [jim_row]
         (start [john_doe])
       = Inr \<lparr>db = [john_doe], created_count = 0,
              errs = [''Row 2: User with email john@example.com already exists'']\<rparr>"
    using C6_registration_before_email
      [where s = "start [john_doe]" and accepts = accept_all and idx = 0
         and rt = plain and cols = user_expected_fields and row = jim_row and xdata = jim
         and xrest = "[]"] p4 d4 r2 e2 v4
    by metis
  from r1 e1 r2 e2 have "registration_exists [john_doe] (registration_number johnny)"
    and "email_exists [john_doe] (email johnny)"
    and "\<not> registration_exists [john_doe] (registration_number jim)"
    and "email_exists [john_doe] (email jim)"
    by (simp_all add: start_def)
  with d1 d2 p3 d3 p4 d4 t1 t2 t3 t4 show ?thesis by blast
qed

section \<open>Rows without a primary field\<close>

lemma either_missing_scalars:
  "row_get cols row a = Inr (Scalar x) \<Longrightarrow> row_get cols row b = Inr (Scalar y) \<Longrightarrow>
     either_missing cols row a b = Inr (isna x \<or> isna y)"
  by (simp add: either_missing_def bind_err_def)

lemma primary_missing_iff:
  "row_get cols row a = Inr (Scalar x) \<Longrightarrow> row_get cols row b = Inr (Scalar y) \<Longrightarrow>
     primary_missing cols a b row = (isna x \<or> isna y)"
  by (simp add: primary_missing_def either_missing_scalars)




lemma bind_try_Inr:
  "bind_try m f = Inr (Inr v) \<Longrightarrow> \<exists>x. m = Inr (Inr x) \<and> f x = Inr (Inr v)"
  by (auto simp: bind_try_def split: sum.splits)

lemma bind_err_Inr: "bind_err m f = Inr v \<Longrightarrow> \<exists>x. m = Inr x \<and> f x = Inr v"
  by (cases m) (simp_all add: bind_err_def)

lemma book_excel_decode_data:
  "book_excel_decode rt cols idx row = Some data \<Longrightarrow>
     book_excel_data rt cols idx row = Inr (Inr data)"
  by (auto simp: book_excel_decode_def split: sum.splits)

lemma user_excel_decode_data:
  "user_excel_decode rt cols idx row = Some data \<Longrightarrow>
     user_excel_data rt cols idx row = Inr data"
  by (auto simp: user_excel_decode_def split: sum.splits)

lemma book_excel_data_fields:
  assumes "book_excel_data rt cols idx row = Inr (Inr data)"
  shows "text_of rt cols idx row ''title'' = Inr (title data)"
    and "text_of rt cols idx row ''author'' = Inr (author data)"
    and "text_of rt cols idx row ''isbn'' = Inr (isbn data)"
    and "text_or_empty rt cols idx row ''publisher'' = Inr (publisher data)"
    and "text_or_empty rt cols idx row ''category'' = Inr (category data)"
  using assms unfolding book_excel_data_def
  by (auto dest!: bind_try_Inr)

lemma user_excel_data_fields:
  assumes "user_excel_data rt cols idx row = Inr data"
  shows "text_of rt cols idx row ''full_name'' = Inr (full_name data)"
    and "text_of rt cols idx row ''email'' = Inr (email data)"
    and "text_of rt cols idx row ''registration_number'' = Inr (registration_number data)"
    and "text_or_empty rt cols idx row ''phone'' = Inr (phone data)"
    and "text_or_empty rt cols idx row ''address'' = Inr (address data)"
  using assms unfolding user_excel_data_def
  by (auto dest!: bind_err_Inr)





section \<open>Missing author and email cells\<close>

lemma strip_nan: "strip ''nan'' = ''nan''"
  by (simp add: strip_def is_space_def)

lemma text_of_nan:
  "row_get cols row name = Inr (Scalar NaN) \<Longrightarrow> text_of rt cols idx row name = Inr ''nan''"
  by (simp add: text_of_def bind_err_def strip_nan)

lemma text_or_empty_nan:
  "row_get cols row name = Inr (Scalar NaN) \<Longrightarrow> text_or_empty rt cols idx row name = Inr []"
  by (simp add: text_or_empty_def bind_err_def isna_def)

text \<open>
  C10, as stated, fails: of two user rows without email the first is persisted with the
  email \<open>nan\<close>, and the second, whose primary fields are present, is rejected by the
  email check against that \<open>nan\<close>.
\<close>

theorem C10_second_missing_email_counterexample:
  "rows no_email_frame = [ann_row, bob_row]
   \<and> row_get (normalize_columns (columns no_email_frame)) bob_row ''email''
       = Inr (Scalar NaN)
   \<and> \<not> primary_missing (normalize_columns (columns no_email_frame)) ''full_name''
         ''registration_number'' bob_row
   \<and> user_process_excel_file accept_all plain [] (Inr no_email_frame)
       = Inr ([ann],
              \<lparr>success = True, created = 1,
               errors = [''Row 3: User with email nan already exists'']\<rparr>)"
  by code_simp

text \<open>
  C10, amended. In a spreadsheet row in which the labels concerned each name one column
  and whose primary cells are present, a missing author cell (book) or email cell (user)
  does not make the row skipped, and its coercion does not fail: the field becomes the
  string \<open>nan\<close>. So when the row decodes, its record has
  that field equal to \<open>nan\<close>, and a missing publisher or category (phone or address)
  cell gives the empty string; and when moreover the uniqueness check passes, which for
  a user includes that no persisted user has the email \<open>nan\<close>, and the database accepts
  the record, the row is persisted and counted. A user row whose registration number is
  free is rejected with \<open>User with email nan already exists\<close> when a persisted user has
  the email \<open>nan\<close>.
\<close>

theorem C10_missing_author_or_email_is_nan:
  "(row_get cols row ''title'' = Inr (Scalar t) \<and> \<not> isna t
    \<and> row_get cols row ''isbn'' = Inr (Scalar i) \<and> \<not> isna i
    \<and> row_get cols row ''author'' = Inr (Scalar NaN)
    \<longrightarrow> \<not> primary_missing cols ''title'' ''isbn'' row
      \<and> text_of rt cols idx row ''author'' = Inr ''nan''
      \<and> (book_excel_decode rt cols idx row = Some data
           \<longrightarrow> author data = ''nan''
             \<and> (row_get cols row ''publisher'' = Inr (Scalar NaN) \<longrightarrow> publisher data = [])
             \<and> (row_get cols row ''category'' = Inr (Scalar NaN) \<longrightarrow> category data = [])
             \<and> (\<not> isbn_exists (db s) (isbn data) \<and> accepts data
                  \<longrightarrow> book_excel_row accepts rt cols idx row s
                      = Inr (s\<lparr>db := db s @ [data],
                               created_count := created_count s + 1\<rparr>))))
   \<and> (row_get ucols urow ''full_name'' = Inr (Scalar n) \<and> \<not> isna n
    \<and> row_get ucols urow ''registration_number'' = Inr (Scalar g) \<and> \<not> isna g
    \<and> row_get ucols urow ''email'' = Inr (Scalar NaN)
    \<longrightarrow> \<not> primary_missing ucols ''full_name'' ''registration_number'' urow
      \<and> text_of urt ucols uidx urow ''email'' = Inr ''nan''
      \<and> (user_excel_decode urt ucols uidx urow = Some udata
           \<longrightarrow> email udata = ''nan''
             \<and> (row_get ucols urow ''phone'' = Inr (Scalar NaN) \<longrightarrow> phone udata = [])
             \<and> (row_get ucols urow ''address'' = Inr (Scalar NaN) \<longrightarrow> address udata = [])
             \<and> (\<not> registration_exists (db us) (registration_number udata)
                  \<and> \<not> email_exists (db us) ''nan'' \<and> uaccepts udata
                  \<longrightarrow> user_excel_row uaccepts urt ucols uidx urow us
                      = Inr (us\<lparr>db := db us @ [udata],
                                created_count := created_count us + 1\<rparr>))
             \<and> (\<not> registration_exists (db us) (registration_number udata)
                  \<and> email_exists (db us) ''nan''
                  \<longrightarrow> user_excel_row uaccepts urt ucols uidx urow us
                      = Inr (add_error (''Row '' @ show_nat (uidx + 2)
                                          @ '': User with email nan already exists'') us))))"
proof (intro conjI impI)
  assume h: "row_get cols row ''title'' = Inr (Scalar t) \<and> \<not> isna t
    \<and> row_get cols row ''isbn'' = Inr (Scalar i) \<and> \<not> isna i
    \<and> row_get cols row ''author'' = Inr (Scalar NaN)"
  then show pm: "\<not> primary_missing cols ''title'' ''isbn'' row"
    by (simp add: primary_missing_iff)
  from h show "text_of rt cols idx row ''author'' = Inr ''nan''"
    by (simp add: text_of_nan)
  {
    assume d: "book_excel_decode rt cols idx row = Some data"
    note f = book_excel_data_fields [OF book_excel_decode_data [OF d]]
    from h f(2) show a: "author data = ''nan''"
      by (simp add: text_of_nan)
    {
      assume "row_get cols row ''publisher'' = Inr (Scalar NaN)"
      with f(4) show "publisher data = []" by (simp add: text_or_empty_nan)
    next
      assume "row_get cols row ''category'' = Inr (Scalar NaN)"
      with f(5) show "category data = []" by (simp add: text_or_empty_nan)
    next
      assume "\<not> isbn_exists (db s) (isbn data) \<and> accepts data"
      with book_excel_row_persist [OF pm d, of s accepts]
      show "book_excel_row accepts rt cols idx row s
              = Inr (s\<lparr>db := db s @ [data], created_count := created_count s + 1\<rparr>)"
        by (simp add: book_conflict_def persist_accepted)
    }
  }
next
  assume h: "row_get ucols urow ''full_name'' = Inr (Scalar n) \<and> \<not> isna n
    \<and> row_get ucols urow ''registration_number'' = Inr (Scalar g) \<and> \<not> isna g
    \<and> row_get ucols urow ''email'' = Inr (Scalar NaN)"
  then show pm: "\<not> primary_missing ucols ''full_name'' ''registration_number'' urow"
    by (simp add: primary_missing_iff)
  from h show "text_of urt ucols uidx urow ''email'' = Inr ''nan''"
    by (simp add: text_of_nan)
  {
    assume d: "user_excel_decode urt ucols uidx urow = Some udata"
    note f = user_excel_data_fields [OF user_excel_decode_data [OF d]]
    from h f(2) show a: "email udata = ''nan''"
      by (simp add: text_of_nan)
    {
      assume "row_get ucols urow ''phone'' = Inr (Scalar NaN)"
      with f(4) show "phone udata = []" by (simp add: text_or_empty_nan)
    next
      assume "row_get ucols urow ''address'' = Inr (Scalar NaN)"
      with f(5) show "address udata = []" by (simp add: text_or_empty_nan)
    next
      assume "\<not> registration_exists (db us) (registration_number udata)
                  \<and> \<not> email_exists (db us) ''nan'' \<and> uaccepts udata"
      with user_excel_row_persist [OF pm d, of us uaccepts] a
      show "user_excel_row uaccepts urt ucols uidx urow us
              = Inr (us\<lparr>db := db us @ [udata], created_count := created_count us + 1\<rparr>)"
        by (simp add: user_conflict_def persist_accepted)
    next
      assume "\<not> registration_exists (db us) (registration_number udata)
                  \<and> email_exists (db us) ''nan''"
      with user_excel_row_decoded [OF pm d, of uaccepts us] a
      show "user_excel_row uaccepts urt ucols uidx urow us
              = Inr (add_error (''Row '' @ show_nat (uidx + 2)
                                  @ '': User with email nan already exists'') us)"
        by (simp add: email_second)
    }
  }
qed

theorem C10_missing_author_or_email_is_nan_witness:
  "row_get book_expected_fields anonymous_row ''title'' = Inr (Scalar (Text ''Beowulf''))
   \<and> \<not> isna (Text ''Beowulf'')
   \<and> row_get book_expected_fields anonymous_row ''isbn''
       = Inr (Scalar (Text ''9780140449310''))
   \<and> \<not> isna (Text ''9780140449310'')
   \<and> row_get book_expected_fields anonymous_row ''author'' = Inr (Scalar NaN)
   \<and> book_excel_decode plain book_expected_fields 0 anonymous_row = Some beowulf
   \<and> row_get book_expected_fields anonymous_row ''publisher'' = Inr (Scalar NaN)
   \<and> row_get book_expected_fields anonymous_row ''category'' = Inr (Scalar NaN)
   \<and> \<not> isbn_exists (db (start [clean_code])) (isbn beowulf)
   \<and> accept_all beowulf
   \<and> author beowulf = ''nan'' \<and> publisher beowulf = [] \<and> category beowulf = []
   \<and> book_excel_row accept_all plain book_expected_fields 0 anonymous_row (start [clean_code])
       = Inr ((start [clean_code])
               \<lparr>db := db (start [clean_code]) @ [beowulf],
                created_count := created_count (start [clean_code]) + 1\<rparr>)
   \<and> row_get user_expected_fields ann_row ''full_name'' = Inr (Scalar (Text ''Ann''))
   \<and> \<not> isna (Text ''Ann'')
   \<and> row_get user_expected_fields ann_row ''registration_number'' = Inr (Scalar (Text ''R1''))
   \<and> \<not> isna (Text ''R1'')
   \<and> row_get user_expected_fields ann_row ''email'' = Inr (Scalar NaN)
   \<and> user_excel_decode plain user_expected_fields 0 ann_row = Some ann
   \<and> row_get user_expected_fields ann_row ''phone'' = Inr (Scalar NaN)
   \<and> row_get user_expected_fields ann_row ''address'' = Inr (Scalar NaN)
   \<and> \<not> registration_exists (db (start [john_doe])) (registration_number ann)
   \<and> \<not> email_exists (db (start [john_doe])) ''nan''
   \<and> accept_all ann
   \<and> email ann = ''nan'' \<and> phone ann = [] \<and> address ann = []
   \<and> user_excel_row accept_all plain user_expected_fields 0 ann_row (start [john_doe])
       = Inr ((start [john_doe])
               \<lparr>db := db (start [john_doe]) @ [ann],
                created_count := created_count (start [john_doe]) + 1\<rparr>)
   \<and> row_get user_expected_fields bob_row ''full_name'' = Inr (Scalar (Text ''Bob''))
   \<and> \<not> isna (Text ''Bob'')
   \<and> row_get user_expected_fields bob_row ''registration_number'' = Inr (Scalar (Text ''R2''))
   \<and> \<not> isna (Text ''R2'')
   \<and> row_get user_expected_fields bob_row ''email'' = Inr (Scalar NaN)
   \<and> user_excel_decode plain user_expected_fields 1 bob_row = Some bob
   \<and> \<not> registration_exists (db (start [ann])) (registration_number bob)
   \<and> email_exists (db (start [ann])) ''nan''
   \<and> user_excel_row accept_all plain user_expected_fields 1 bob_row (start [ann])
       = Inr \<lparr>db = [ann], created_count = 0,
              errs = [''Row 3: User with email nan already exists'']\<rparr>"
proof -
  have b1: "row_get book_expected_fields anonymous_row ''title'' = Inr (Scalar (Text ''Beowulf''))
   \<and> \<not> isna (Text ''Beowulf'')
   \<and> row_get book_expected_fields anonymous_row ''isbn''
       = Inr (Scalar (Text ''9780140449310''))
   \<and> \<not> isna (Text ''9780140449310'')
   \<and> row_get book_expected_fields anonymous_row ''author'' = Inr (Scalar NaN)"
    by code_simp
  have b2: "book_excel_decode plain book_expected_fields 0 anonymous_row = Some beowulf"
    by code_simp
  have b3: "row_get book_expected_fields anonymous_row ''publisher'' = Inr (Scalar NaN)"
    by code_simp
  have b4: "row_get book_expected_fields anonymous_row ''category'' = Inr (Scalar NaN)"
    by code_simp
  have b5: "\<not> isbn_exists (db (start [clean_code])) (isbn beowulf) \<and> accept_all beowulf"
    by code_simp
  have u1: "row_get user_expected_fields ann_row ''full_name'' = Inr (Scalar (Text ''Ann''))
   \<and> \<not> isna (Text ''Ann'')
   \<and> row_get user_expected_fields ann_row ''registration_number'' = Inr (Scalar (Text ''R1''))
   \<and> \<not> isna (Text ''R1'')
   \<and> row_get user_expected_fields ann_row ''email'' = Inr (Scalar NaN)"
    by code_simp
  have u2: "user_excel_decode plain user_expected_fields 0 ann_row = Some ann" by code_simp
  have u3: "row_get user_expected_fields ann_row ''phone'' = Inr (Scalar NaN)" by code_simp
  have u4: "row_get user_expected_fields ann_row ''address'' = Inr (Scalar NaN)" by code_simp
  have u5: "\<not> registration_exists (db (start [john_doe])) (registration_number ann)
     \<and> \<not> email_exists (db (start [john_doe])) ''nan'' \<and> accept_all ann"
    by code_simp
  have w1: "row_get user_expected_fields bob_row ''full_name'' = Inr (Scalar (Text ''Bob''))
   \<and> \<not> isna (Text ''Bob'')
   \<and> row_get user_expected_fields bob_row ''registration_number'' = Inr (Scalar (Text ''R2''))
   \<and> \<not> isna (Text ''R2'')
   \<and> row_get user_expected_fields bob_row ''email'' = Inr (Scalar NaN)"
    by code_simp
  have w2: "user_excel_decode plain user_expected_fields 1 bob_row = Some bob" by code_simp
  have w5: "\<not> registration_exists (db (start [ann])) (registration_number bob)
     \<and> email_exists (db (start [ann])) ''nan''"
    by code_simp
  have w6: "Inr (add_error (''Row '' @ show_nat (1 + 2)
                              @ '': User with email nan already exists'') (start [ann]))
            = (Inr \<lparr>db = [ann], created_count = 0,
                   errs = [''Row 3: User with email nan already exists'']\<rparr>
               :: crash + library_user session)"
    by code_simp
  note inst = C10_missing_author_or_email_is_nan
      [where cols = book_expected_fields and row = anonymous_row and t = "Text ''Beowulf''"
         and i = "Text ''9780140449310''" and data = beowulf and s = "start [clean_code]"
         and accepts = accept_all and rt = plain and idx = 0
         and ucols = user_expected_fields and urow = ann_row and n = "Text ''Ann''"
         and g = "Text ''R1''" and udata = ann and us = "start [john_doe]"
         and uaccepts = accept_all and urt = plain and uidx = 0]
  note again = C10_missing_author_or_email_is_nan
      [where ucols = user_expected_fields and urow = bob_row and n = "Text ''Bob''"
         and g = "Text ''R2''" and udata = bob and us = "start [ann]"
         and uaccepts = accept_all and urt = plain and uidx = 1]
  note bk = inst [THEN conjunct1, THEN mp, OF b1, THEN conjunct2, THEN conjunct2, THEN mp,
      OF b2]
  note us = inst [THEN conjunct2, THEN mp, OF u1, THEN conjunct2, THEN conjunct2, THEN mp,
      OF u2]
  note c1 = bk [THEN conjunct1]
  note c2 = bk [THEN conjunct2, THEN conjunct1, THEN mp, OF b3]
  note c3 = bk [THEN conjunct2, THEN conjunct2, THEN conjunct1, THEN mp, OF b4]
  note c4 = bk [THEN conjunct2, THEN conjunct2, THEN conjunct2, THEN mp, OF b5]
  note e1 = us [THEN conjunct1]
  note e2 = us [THEN conjunct2, THEN conjunct1, THEN mp, OF u3]
  note e3 = us [THEN conjunct2, THEN conjunct2, THEN conjunct1, THEN mp, OF u4]
  note e4 = us [THEN conjunct2, THEN conjunct2, THEN conjunct2, THEN conjunct1, THEN mp,
      OF u5]
  note e5 = trans [OF again [THEN conjunct2, THEN mp, OF w1, THEN conjunct2, THEN conjunct2,
      THEN mp, OF w2, THEN conjunct2, THEN conjunct2, THEN conjunct2, THEN conjunct2,
      THEN mp, OF w5] w6]
  note b1' = b1 [THEN conjunct1] b1 [THEN conjunct2, THEN conjunct1]
    b1 [THEN conjunct2, THEN conjunct2, THEN conjunct1]
    b1 [THEN conjunct2, THEN conjunct2, THEN conjunct2, THEN conjunct1]
    b1 [THEN conjunct2, THEN conjunct2, THEN conjunct2, THEN conjunct2]
  note u1' = u1 [THEN conjunct1] u1 [THEN conjunct2, THEN conjunct1]
    u1 [THEN conjunct2, THEN conjunct2, THEN conjunct1]
    u1 [THEN conjunct2, THEN conjunct2, THEN conjunct2, THEN conjunct1]
    u1 [THEN conjunct2, THEN conjunct2, THEN conjunct2, THEN conjunct2]
  note w1' = w1 [THEN conjunct1] w1 [THEN conjunct2, THEN conjunct1]
    w1 [THEN conjunct2, THEN conjunct2, THEN conjunct1]
    w1 [THEN conjunct2, THEN conjunct2, THEN conjunct2, THEN conjunct1]
    w1 [THEN conjunct2, THEN conjunct2, THEN conjunct2, THEN conjunct2]
  note b5' = b5 [THEN conjunct1] b5 [THEN conjunct2]
  note u5' = u5 [THEN conjunct1] u5 [THEN conjunct2, THEN conjunct1]
    u5 [THEN conjunct2, THEN conjunct2]
  note w5' = w5 [THEN conjunct1] w5 [THEN conjunct2]
  show ?thesis
    by (intro conjI)
       (rule b1' b2 b3 b4 b5' c1 c2 c3 c4 u1' u2 u3 u4 u5' e1 e2 e3 e4 w1' w2 w5' e5)+
qed

section \<open>Natural keys stay unique\<close>

lemma committed_stays:
  assumes rb: "row_body body skip dec conflict accepts"
    and d: "dec i x = Some d"
    and run: "body i x s = Inr s1"
    and cnt: "created_count s1 = created_count s + 1"
    and rest: "for_rows body k mid s1 = Inr s2"
  shows "d \<in> set (db s2)"
proof -
  from row_body_cases [OF rb run] cnt d
  have "db s1 = db s @ [d]" by auto
  moreover from loop_grows [OF rb rest] obtain new where "db s2 = db s1 @ new" by blast
  ultimately show ?thesis by simp
qed

lemma isbn_exists_member: "d \<in> set tbl \<Longrightarrow> isbn d' = isbn d \<Longrightarrow> isbn_exists tbl (isbn d')"
  by (auto simp: isbn_exists_def list_ex_iff)

lemma registration_exists_member:
  "d \<in> set tbl \<Longrightarrow> registration_number d' = registration_number d \<Longrightarrow>
     registration_exists tbl (registration_number d')"
  by (auto simp: registration_exists_def list_ex_iff)

lemma email_exists_member:
  "d \<in> set tbl \<Longrightarrow> email d' = email d \<Longrightarrow> email_exists tbl (email d')"
  by (auto simp: email_exists_def list_ex_iff)

lemma book_txt_row_exists:
  "book_txt_decode l = Some d \<Longrightarrow> isbn_exists (db s) (isbn d) \<Longrightarrow>
     book_txt_row accepts j l s
       = Inr (add_error (''Line '' @ show_nat j @ '': Book with ISBN '' @ isbn d
                           @ '' already exists'') s)"
  by (cases "strip l = []")
     (auto simp: book_txt_decode_def book_txt_row_def Let_def expected_length
           split: if_splits sum.splits)

lemma book_excel_row_exists:
  "\<not> primary_missing cols ''title'' ''isbn'' r \<Longrightarrow>
   book_excel_decode rt cols j r = Some d \<Longrightarrow> isbn_exists (db s) (isbn d) \<Longrightarrow>
     book_excel_row accepts rt cols j r s
       = Inr (add_error (''Row '' @ show_nat (j + 2) @ '': Book with ISBN '' @ isbn d
                           @ '' already exists'') s)"
  by (auto simp: primary_missing_def book_excel_decode_def book_excel_row_def
           split: sum.splits bool.splits)

lemma user_conflict_error:
  "registration_exists (db s) (registration_number d) \<or> email_exists (db s) (email d) \<Longrightarrow>
     user_check_create accepts place d s
       = Inr (add_error
               (if registration_exists (db s) (registration_number d)
                then place @ '': User with registration '' @ registration_number d
                       @ '' already exists''
                else place @ '': User with email '' @ email d @ '' already exists'') s)"
  by (auto simp: user_check_create_def)

lemma book_txt_keys:
  assumes inv: "book_keys_unique tbl"
    and run: "book_process_txt_file accepts tbl file = Inr (tbl', out)"
  shows "book_keys_unique tbl'"
proof -
  from run consider (aborted) "tbl' = tbl"
    | (looped) content s where "for_rows (book_txt_row accepts) 2 (tl (file_lines content)) (start tbl) = Inr s" "tbl' = db s"
    by (auto simp: book_process_txt_file_def Let_def failed_def report_def
             split: option.splits if_splits sum.splits)
  then show ?thesis
  proof cases
    case aborted
    with inv show ?thesis by simp
  next
    case looped
    from loop_invariant [where Inv = book_keys_unique, OF book_txt_row_body book_keys_step looped(1)] inv looped(2)
    show ?thesis by simp
  qed
qed

lemma book_excel_keys:
  assumes inv: "book_keys_unique tbl"
    and run: "book_process_excel_file accepts rt tbl file = Inr (tbl', out)"
  shows "book_keys_unique tbl'"
proof -
  from run consider (aborted) "tbl' = tbl"
    | (looped) cols rs s where "for_rows (book_excel_row accepts rt cols) 0 rs (start tbl) = Inr s"
      "tbl' = db s"
    by (auto simp: book_process_excel_file_def Let_def failed_def report_def
             split: if_splits sum.splits)
  then show ?thesis
  proof cases
    case aborted
    with inv show ?thesis by simp
  next
    case looped
    from loop_invariant [where Inv = book_keys_unique, OF book_excel_row_body book_keys_step looped(1)] inv looped(2)
    show ?thesis by simp
  qed
qed

lemma user_txt_keys:
  assumes inv: "user_keys_unique tbl"
    and run: "user_process_txt_file accepts tbl file = Inr (tbl', out)"
  shows "user_keys_unique tbl'"
proof -
  from run consider (aborted) "tbl' = tbl"
    | (looped) content s where "for_rows (user_txt_row accepts) 2 (tl (file_lines content)) (start tbl) = Inr s" "tbl' = db s"
    by (auto simp: user_process_txt_file_def Let_def failed_def report_def
             split: option.splits if_splits sum.splits)
  then show ?thesis
  proof cases
    case aborted
    with inv show ?thesis by simp
  next
    case looped
    from loop_invariant [where Inv = user_keys_unique, OF user_txt_row_body user_keys_step looped(1)] inv looped(2)
    show ?thesis by simp
  qed
qed

lemma user_excel_keys:
  assumes inv: "user_keys_unique tbl"
    and run: "user_process_excel_file accepts rt tbl file = Inr (tbl', out)"
  shows "user_keys_unique tbl'"
proof -
  from run consider (aborted) "tbl' = tbl"
    | (looped) cols rs s where "for_rows (user_excel_row accepts rt cols) 0 rs (start tbl) = Inr s"
      "tbl' = db s"
    by (auto simp: user_process_excel_file_def Let_def failed_def report_def
             split: if_splits sum.splits)
  then show ?thesis
  proof cases
    case aborted
    with inv show ?thesis by simp
  next
    case looped
    from loop_invariant [where Inv = user_keys_unique, OF user_excel_row_body user_keys_step looped(1)] inv looped(2)
    show ?thesis by simp
  qed
qed

text \<open>
  C9. Each of the four imports keeps the natural keys unique: when no two persisted books
  share an ISBN (no two users a registration number or an email) before the import, none
  do after it. Within one import, once a row has been committed, a later row that decodes
  to the same ISBN (to the same registration number or the same email), whatever rows
  were processed in between, is not persisted: it gets the \<open>already exists\<close> error and
  changes nothing else in the session.
\<close>

theorem C9_natural_keys_stay_unique:
  "(book_keys_unique tbl \<and> book_process_txt_file accepts tbl tfile = Inr (tbl', out)
      \<longrightarrow> book_keys_unique tbl')
   \<and> (book_keys_unique tbl \<and> book_process_excel_file accepts rt tbl xfile = Inr (tbl', out)
      \<longrightarrow> book_keys_unique tbl')
   \<and> (user_keys_unique utbl \<and> user_process_txt_file uaccepts utbl tfile = Inr (utbl', out)
      \<longrightarrow> user_keys_unique utbl')
   \<and> (user_keys_unique utbl \<and> user_process_excel_file uaccepts rt utbl xfile = Inr (utbl', out)
      \<longrightarrow> user_keys_unique utbl')
   \<and> (book_txt_decode line_a = Some book_a \<and> book_txt_decode line_b = Some book_b \<and> isbn book_b = isbn book_a
      \<and> book_txt_row accepts i line_a s = Inr sa \<and> created_count sa = created_count s + 1
      \<and> for_rows (book_txt_row accepts) (Suc i) mid sa = Inr sb
      \<longrightarrow> book_txt_row accepts j line_b sb
          = Inr (add_error (''Line '' @ show_nat j @ '': Book with ISBN '' @ isbn book_b
                              @ '' already exists'') sb))
   \<and> (book_excel_decode rt cols i row_a = Some book_a \<and> book_excel_decode rt cols j row_b = Some book_b
      \<and> \<not> primary_missing cols ''title'' ''isbn'' row_b \<and> isbn book_b = isbn book_a
      \<and> book_excel_row accepts rt cols i row_a s = Inr sa \<and> created_count sa = created_count s + 1
      \<and> for_rows (book_excel_row accepts rt cols) (Suc i) xmid sa = Inr sb
      \<longrightarrow> book_excel_row accepts rt cols j row_b sb
          = Inr (add_error (''Row '' @ show_nat (j + 2) @ '': Book with ISBN '' @ isbn book_b
                              @ '' already exists'') sb))
   \<and> (user_txt_decode line_a = Some user_a \<and> user_txt_decode line_b = Some user_b
      \<and> (registration_number user_b = registration_number user_a \<or> email user_b = email user_a)
      \<and> user_txt_row uaccepts i line_a us = Inr usa \<and> created_count usa = created_count us + 1
      \<and> for_rows (user_txt_row uaccepts) (Suc i) mid usa = Inr usb
      \<longrightarrow> user_txt_row uaccepts j line_b usb
          = Inr (add_error
                  (if registration_exists (db usb) (registration_number user_b)
                   then ''Line '' @ show_nat j @ '': User with registration ''
                          @ registration_number user_b @ '' already exists''
                   else ''Line '' @ show_nat j @ '': User with email '' @ email user_b
                          @ '' already exists'') usb))
   \<and> (user_excel_decode rt cols i row_a = Some user_a \<and> user_excel_decode rt cols j row_b = Some user_b
      \<and> \<not> primary_missing cols ''full_name'' ''registration_number'' row_b
      \<and> (registration_number user_b = registration_number user_a \<or> email user_b = email user_a)
      \<and> user_excel_row uaccepts rt cols i row_a us = Inr usa
      \<and> created_count usa = created_count us + 1
      \<and> for_rows (user_excel_row uaccepts rt cols) (Suc i) xmid usa = Inr usb
      \<longrightarrow> user_excel_row uaccepts rt cols j row_b usb
          = Inr (add_error
                  (if registration_exists (db usb) (registration_number user_b)
                   then ''Row '' @ show_nat (j + 2) @ '': User with registration ''
                          @ registration_number user_b @ '' already exists''
                   else ''Row '' @ show_nat (j + 2) @ '': User with email '' @ email user_b
                          @ '' already exists'') usb))"
proof (intro conjI impI)
  assume "book_keys_unique tbl \<and> book_process_txt_file accepts tbl tfile = Inr (tbl', out)"
  then show "book_keys_unique tbl'" by (blast intro: book_txt_keys)
next
  assume "book_keys_unique tbl \<and> book_process_excel_file accepts rt tbl xfile = Inr (tbl', out)"
  then show "book_keys_unique tbl'" by (blast intro: book_excel_keys)
next
  assume "user_keys_unique utbl \<and> user_process_txt_file uaccepts utbl tfile = Inr (utbl', out)"
  then show "user_keys_unique utbl'" by (blast intro: user_txt_keys)
next
  assume "user_keys_unique utbl
            \<and> user_process_excel_file uaccepts rt utbl xfile = Inr (utbl', out)"
  then show "user_keys_unique utbl'" by (blast intro: user_excel_keys)
next
  assume h: "book_txt_decode line_a = Some book_a \<and> book_txt_decode line_b = Some book_b \<and> isbn book_b = isbn book_a
      \<and> book_txt_row accepts i line_a s = Inr sa \<and> created_count sa = created_count s + 1
      \<and> for_rows (book_txt_row accepts) (Suc i) mid sa = Inr sb"
  then have d: "book_txt_decode line_a = Some book_a"
    and run: "book_txt_row accepts i line_a s = Inr sa"
    and cnt: "created_count sa = created_count s + 1"
    and rest: "for_rows (book_txt_row accepts) (Suc i) mid sa = Inr sb"
    by simp_all
  from committed_stays [OF book_txt_row_body d run cnt rest]
  have "book_a \<in> set (db sb)" .
  with h have "isbn_exists (db sb) (isbn book_b)" by (simp add: isbn_exists_member)
  with h show "book_txt_row accepts j line_b sb
          = Inr (add_error (''Line '' @ show_nat j @ '': Book with ISBN '' @ isbn book_b
                              @ '' already exists'') sb)"
    by (simp add: book_txt_row_exists)
next
  assume h: "book_excel_decode rt cols i row_a = Some book_a \<and> book_excel_decode rt cols j row_b = Some book_b
      \<and> \<not> primary_missing cols ''title'' ''isbn'' row_b \<and> isbn book_b = isbn book_a
      \<and> book_excel_row accepts rt cols i row_a s = Inr sa \<and> created_count sa = created_count s + 1
      \<and> for_rows (book_excel_row accepts rt cols) (Suc i) xmid sa = Inr sb"
  then have d: "book_excel_decode rt cols i row_a = Some book_a"
    and run: "book_excel_row accepts rt cols i row_a s = Inr sa"
    and cnt: "created_count sa = created_count s + 1"
    and rest: "for_rows (book_excel_row accepts rt cols) (Suc i) xmid sa = Inr sb"
    by simp_all
  from committed_stays [OF book_excel_row_body d run cnt rest]
  have "book_a \<in> set (db sb)" .
  with h have "isbn_exists (db sb) (isbn book_b)" by (simp add: isbn_exists_member)
  with h show "book_excel_row accepts rt cols j row_b sb
          = Inr (add_error (''Row '' @ show_nat (j + 2) @ '': Book with ISBN '' @ isbn book_b
                              @ '' already exists'') sb)"
    by (simp add: book_excel_row_exists)
next
  assume h: "user_txt_decode line_a = Some user_a \<and> user_txt_decode line_b = Some user_b
      \<and> (registration_number user_b = registration_number user_a \<or> email user_b = email user_a)
      \<and> user_txt_row uaccepts i line_a us = Inr usa \<and> created_count usa = created_count us + 1
      \<and> for_rows (user_txt_row uaccepts) (Suc i) mid usa = Inr usb"
  then have d: "user_txt_decode line_a = Some user_a"
    and run: "user_txt_row uaccepts i line_a us = Inr usa"
    and cnt: "created_count usa = created_count us + 1"
    and rest: "for_rows (user_txt_row uaccepts) (Suc i) mid usa = Inr usb"
    by simp_all
  from committed_stays [OF user_txt_row_body d run cnt rest]
  have "user_a \<in> set (db usb)" .
  with h have "registration_exists (db usb) (registration_number user_b)
                 \<or> email_exists (db usb) (email user_b)"
    by (auto simp: registration_exists_member email_exists_member)
  from user_conflict_error [OF this] h
  show "user_txt_row uaccepts j line_b usb
          = Inr (add_error
                  (if registration_exists (db usb) (registration_number user_b)
                   then ''Line '' @ show_nat j @ '': User with registration ''
                          @ registration_number user_b @ '' already exists''
                   else ''Line '' @ show_nat j @ '': User with email '' @ email user_b
                          @ '' already exists'') usb)"
    by (simp add: user_txt_row_decoded)
next
  assume h: "user_excel_decode rt cols i row_a = Some user_a \<and> user_excel_decode rt cols j row_b = Some user_b
      \<and> \<not> primary_missing cols ''full_name'' ''registration_number'' row_b
      \<and> (registration_number user_b = registration_number user_a \<or> email user_b = email user_a)
      \<and> user_excel_row uaccepts rt cols i row_a us = Inr usa
      \<and> created_count usa = created_count us + 1
      \<and> for_rows (user_excel_row uaccepts rt cols) (Suc i) xmid usa = Inr usb"
  then have d: "user_excel_decode rt cols i row_a = Some user_a"
    and run: "user_excel_row uaccepts rt cols i row_a us = Inr usa"
    and cnt: "created_count usa = created_count us + 1"
    and rest: "for_rows (user_excel_row uaccepts rt cols) (Suc i) xmid usa = Inr usb"
    by simp_all
  from committed_stays [OF user_excel_row_body d run cnt rest]
  have "user_a \<in> set (db usb)" .
  with h have "registration_exists (db usb) (registration_number user_b)
                 \<or> email_exists (db usb) (email user_b)"
    by (auto simp: registration_exists_member email_exists_member)
  from user_conflict_error [OF this] h
  show "user_excel_row uaccepts rt cols j row_b usb
          = Inr (add_error
                  (if registration_exists (db usb) (registration_number user_b)
                   then ''Row '' @ show_nat (j + 2) @ '': User with registration ''
                          @ registration_number user_b @ '' already exists''
                   else ''Row '' @ show_nat (j + 2) @ '': User with email '' @ email user_b
                          @ '' already exists'') usb)"
    by (simp add: user_excel_row_decoded)
qed

theorem C9_natural_keys_stay_unique_witness:
  "(book_keys_unique [] \<and> book_process_txt_file accept_all [] (Some books_txt)
       = Inr ([clean_code], \<lparr>success = True, created = 1, errors = [''Line 3: Expected 7 fields, got 2'']\<rparr>))
   \<and> (book_keys_unique [clean_code])
   \<and> (book_keys_unique [] \<and> book_process_excel_file accept_all plain [] (Inr books_frame)
       = Inr ([clean_code], \<lparr>success = True, created = 1,
          errors = [''Row 4: Book with ISBN 9780132350884 already exists'']\<rparr>))
   \<and> (book_keys_unique [clean_code])
   \<and> (user_keys_unique [] \<and> user_process_txt_file accept_all [] (Some users_txt)
       = Inr ([john_doe], \<lparr>success = True, created = 1, errors = [''Line 3: Expected 6 fields, got 2'']\<rparr>))
   \<and> (user_keys_unique [john_doe])
   \<and> (user_keys_unique [] \<and> user_process_excel_file accept_all plain [] (Inr users_frame)
       = Inr ([john_doe], \<lparr>success = True, created = 1,
          errors = [''Row 4: User with email john@example.com already exists'']\<rparr>))
   \<and> (user_keys_unique [john_doe])
   \<and> (book_txt_decode clean_code_line = Some clean_code
      \<and> book_txt_decode clean_code_again_line = Some clean_code_again
      \<and> isbn clean_code_again = isbn clean_code
      \<and> book_txt_row accept_all 2 clean_code_line (start []) = Inr \<lparr>db = [clean_code], created_count = 1, errs = []\<rparr>
      \<and> created_count \<lparr>db = [clean_code], created_count = 1, errs = []\<rparr> = created_count (start ([] :: book list)) + 1
      \<and> for_rows (book_txt_row accept_all) (Suc 2) [''Invalid Book|Author''] \<lparr>db = [clean_code], created_count = 1, errs = []\<rparr>
          = Inr \<lparr>db = [clean_code], created_count = 1,
          errs = [''Line 3: Expected 7 fields, got 2'']\<rparr>)
   \<and> (book_txt_row accept_all 4 clean_code_again_line \<lparr>db = [clean_code], created_count = 1,
          errs = [''Line 3: Expected 7 fields, got 2'']\<rparr>
       = Inr \<lparr>db = [clean_code], created_count = 1,
          errs = [''Line 3: Expected 7 fields, got 2'',
                  ''Line 4: Book with ISBN 9780132350884 already exists'']\<rparr>)
   \<and> (book_excel_decode plain book_expected_fields 0 clean_code_row = Some clean_code
      \<and> book_excel_decode plain book_expected_fields 2 clean_code_again_row = Some clean_code_again
      \<and> \<not> primary_missing book_expected_fields ''title'' ''isbn'' clean_code_again_row
      \<and> isbn clean_code_again = isbn clean_code
      \<and> book_excel_row accept_all plain book_expected_fields 0 clean_code_row (start []) = Inr \<lparr>db = [clean_code], created_count = 1, errs = []\<rparr>
      \<and> created_count \<lparr>db = [clean_code], created_count = 1, errs = []\<rparr> = created_count (start ([] :: book list)) + 1
      \<and> for_rows (book_excel_row accept_all plain book_expected_fields) (Suc 0) [nobody_row] \<lparr>db = [clean_code], created_count = 1, errs = []\<rparr>
          = Inr \<lparr>db = [clean_code], created_count = 1, errs = []\<rparr>)
   \<and> (book_excel_row accept_all plain book_expected_fields 2 clean_code_again_row \<lparr>db = [clean_code], created_count = 1, errs = []\<rparr>
       = Inr \<lparr>db = [clean_code], created_count = 1,
          errs = [''Row 4: Book with ISBN 9780132350884 already exists'']\<rparr>)
   \<and> (user_txt_decode john_doe_line = Some john_doe
      \<and> user_txt_decode johnny_line = Some johnny
      \<and> (registration_number johnny = registration_number john_doe
           \<or> email johnny = email john_doe)
      \<and> user_txt_row accept_all 2 john_doe_line (start []) = Inr \<lparr>db = [john_doe], created_count = 1, errs = []\<rparr>
      \<and> created_count \<lparr>db = [john_doe], created_count = 1, errs = []\<rparr> = created_count (start ([] :: library_user list)) + 1
      \<and> for_rows (user_txt_row accept_all) (Suc 2) [] \<lparr>db = [john_doe], created_count = 1, errs = []\<rparr>
          = Inr \<lparr>db = [john_doe], created_count = 1, errs = []\<rparr>)
   \<and> (user_txt_row accept_all 3 johnny_line \<lparr>db = [john_doe], created_count = 1, errs = []\<rparr>
       = Inr \<lparr>db = [john_doe], created_count = 1,
          errs = [''Line 3: User with registration REG001 already exists'']\<rparr>)
   \<and> (user_excel_decode plain user_expected_fields 0 john_doe_row = Some john_doe
      \<and> user_excel_decode plain user_expected_fields 2 jim_row = Some jim
      \<and> \<not> primary_missing user_expected_fields ''full_name'' ''registration_number'' jim_row
      \<and> (registration_number jim = registration_number john_doe \<or> email jim = email john_doe)
      \<and> user_excel_row accept_all plain user_expected_fields 0 john_doe_row (start []) = Inr \<lparr>db = [john_doe], created_count = 1, errs = []\<rparr>
      \<and> created_count \<lparr>db = [john_doe], created_count = 1, errs = []\<rparr> = created_count (start ([] :: library_user list)) + 1
      \<and> for_rows (user_excel_row accept_all plain user_expected_fields) (Suc 0) [jane_row] \<lparr>db = [john_doe], created_count = 1, errs = []\<rparr>
          = Inr \<lparr>db = [john_doe], created_count = 1, errs = []\<rparr>)
   \<and> (user_excel_row accept_all plain user_expected_fields 2 jim_row \<lparr>db = [john_doe], created_count = 1, errs = []\<rparr>
       = Inr \<lparr>db = [john_doe], created_count = 1,
          errs = [''Row 4: User with email john@example.com already exists'']\<rparr>)"
proof -
  have h1: "book_keys_unique [] \<and> book_process_txt_file accept_all [] (Some books_txt)
       = Inr ([clean_code], \<lparr>success = True, created = 1, errors = [''Line 3: Expected 7 fields, got 2'']\<rparr>)"
    by code_simp
  note c1 = C9_natural_keys_stay_unique
      [where tbl = "[]" and accepts = accept_all and tfile = "Some books_txt"
         and tbl' = "[clean_code]" and out = "\<lparr>success = True, created = 1, errors = [''Line 3: Expected 7 fields, got 2'']\<rparr>",
       THEN conjunct1, THEN mp, OF h1]
  have h2: "book_keys_unique [] \<and> book_process_excel_file accept_all plain [] (Inr books_frame)
       = Inr ([clean_code], \<lparr>success = True, created = 1,
          errors = [''Row 4: Book with ISBN 9780132350884 already exists'']\<rparr>)"
    by code_simp
  note c2 = C9_natural_keys_stay_unique
      [where tbl = "[]" and accepts = accept_all and rt = plain and xfile = "Inr books_frame"
         and tbl' = "[clean_code]" and out = "\<lparr>success = True, created = 1,
          errors = [''Row 4: Book with ISBN 9780132350884 already exists'']\<rparr>",
       THEN conjunct2, THEN conjunct1, THEN mp, OF h2]
  have h3: "user_keys_unique [] \<and> user_process_txt_file accept_all [] (Some users_txt)
       = Inr ([john_doe], \<lparr>success = True, created = 1, errors = [''Line 3: Expected 6 fields, got 2'']\<rparr>)"
    by code_simp
  note c3 = C9_natural_keys_stay_unique
      [where utbl = "[]" and uaccepts = accept_all and tfile = "Some users_txt"
         and utbl' = "[john_doe]" and out = "\<lparr>success = True, created = 1, errors = [''Line 3: Expected 6 fields, got 2'']\<rparr>",
       THEN conjunct2, THEN conjunct2, THEN conjunct1, THEN mp, OF h3]
  have h4: "user_keys_unique [] \<and> user_process_excel_file accept_all plain [] (Inr users_frame)
       = Inr ([john_doe], \<lparr>success = True, created = 1,
          errors = [''Row 4: User with email john@example.com already exists'']\<rparr>)"
    by code_simp
  note c4 = C9_natural_keys_stay_unique
      [where utbl = "[]" and uaccepts = accept_all and rt = plain and xfile = "Inr users_frame"
         and utbl' = "[john_doe]" and out = "\<lparr>success = True, created = 1,
          errors = [''Row 4: User with email john@example.com already exists'']\<rparr>",
       THEN conjunct2, THEN conjunct2, THEN conjunct2, THEN conjunct1, THEN mp, OF h4]
  have h5: "book_txt_decode clean_code_line = Some clean_code
      \<and> book_txt_decode clean_code_again_line = Some clean_code_again
      \<and> isbn clean_code_again = isbn clean_code
      \<and> book_txt_row accept_all 2 clean_code_line (start []) = Inr \<lparr>db = [clean_code], created_count = 1, errs = []\<rparr>
      \<and> created_count \<lparr>db = [clean_code], created_count = 1, errs = []\<rparr> = created_count (start ([] :: book list)) + 1
      \<and> for_rows (book_txt_row accept_all) (Suc 2) [''Invalid Book|Author''] \<lparr>db = [clean_code], created_count = 1, errs = []\<rparr>
          = Inr \<lparr>db = [clean_code], created_count = 1,
          errs = [''Line 3: Expected 7 fields, got 2'']\<rparr>"
    by code_simp
  note c5 = C9_natural_keys_stay_unique
      [where line_a = clean_code_line and book_a = clean_code and line_b = clean_code_again_line
         and book_b = clean_code_again and accepts = accept_all and i = 2 and s = "start []"
         and sa = "\<lparr>db = [clean_code], created_count = 1, errs = []\<rparr>"
         and mid = "[''Invalid Book|Author'']"
         and sb = "\<lparr>db = [clean_code], created_count = 1,
          errs = [''Line 3: Expected 7 fields, got 2'']\<rparr>" and j = 4,
       THEN conjunct2, THEN conjunct2, THEN conjunct2, THEN conjunct2, THEN conjunct1, THEN mp, OF h5]
  have v5: "(Inr (add_error (''Line '' @ show_nat 4 @ '': Book with ISBN '' @ isbn clean_code_again
                              @ '' already exists'') \<lparr>db = [clean_code], created_count = 1,
          errs = [''Line 3: Expected 7 fields, got 2'']\<rparr>) :: crash + book session)
       = Inr \<lparr>db = [clean_code], created_count = 1,
          errs = [''Line 3: Expected 7 fields, got 2'',
                  ''Line 4: Book with ISBN 9780132350884 already exists'']\<rparr>"
    by code_simp
  note t5 = trans [OF c5 v5]
  have h6: "book_excel_decode plain book_expected_fields 0 clean_code_row = Some clean_code
      \<and> book_excel_decode plain book_expected_fields 2 clean_code_again_row = Some clean_code_again
      \<and> \<not> primary_missing book_expected_fields ''title'' ''isbn'' clean_code_again_row
      \<and> isbn clean_code_again = isbn clean_code
      \<and> book_excel_row accept_all plain book_expected_fields 0 clean_code_row (start []) = Inr \<lparr>db = [clean_code], created_count = 1, errs = []\<rparr>
      \<and> created_count \<lparr>db = [clean_code], created_count = 1, errs = []\<rparr> = created_count (start ([] :: book list)) + 1
      \<and> for_rows (book_excel_row accept_all plain book_expected_fields) (Suc 0) [nobody_row] \<lparr>db = [clean_code], created_count = 1, errs = []\<rparr>
          = Inr \<lparr>db = [clean_code], created_count = 1, errs = []\<rparr>"
    by code_simp
  note c6 = C9_natural_keys_stay_unique
      [where rt = plain and cols = book_expected_fields and row_a = clean_code_row and book_a = clean_code
         and row_b = clean_code_again_row and book_b = clean_code_again and accepts = accept_all
         and i = 0 and s = "start []"
         and sa = "\<lparr>db = [clean_code], created_count = 1, errs = []\<rparr>"
         and xmid = "[nobody_row]"
         and sb = "\<lparr>db = [clean_code], created_count = 1, errs = []\<rparr>" and j = 2,
       THEN conjunct2, THEN conjunct2, THEN conjunct2, THEN conjunct2, THEN conjunct2, THEN conjunct1, THEN mp, OF h6]
  have v6: "(Inr (add_error (''Row '' @ show_nat (2 + 2) @ '': Book with ISBN '' @ isbn clean_code_again
                              @ '' already exists'') \<lparr>db = [clean_code], created_count = 1, errs = []\<rparr>) :: crash + book session)
       = Inr \<lparr>db = [clean_code], created_count = 1,
          errs = [''Row 4: Book with ISBN 9780132350884 already exists'']\<rparr>"
    by code_simp
  note t6 = trans [OF c6 v6]
  have h7: "user_txt_decode john_doe_line = Some john_doe
      \<and> user_txt_decode johnny_line = Some johnny
      \<and> (registration_number johnny = registration_number john_doe
           \<or> email johnny = email john_doe)
      \<and> user_txt_row accept_all 2 john_doe_line (start []) = Inr \<lparr>db = [john_doe], created_count = 1, errs = []\<rparr>
      \<and> created_count \<lparr>db = [john_doe], created_count = 1, errs = []\<rparr> = created_count (start ([] :: library_user list)) + 1
      \<and> for_rows (user_txt_row accept_all) (Suc 2) [] \<lparr>db = [john_doe], created_count = 1, errs = []\<rparr>
          = Inr \<lparr>db = [john_doe], created_count = 1, errs = []\<rparr>"
    by code_simp
  note c7 = C9_natural_keys_stay_unique
      [where line_a = john_doe_line and user_a = john_doe and line_b = johnny_line and user_b = johnny
         and uaccepts = accept_all and i = 2 and us = "start []"
         and usa = "\<lparr>db = [john_doe], created_count = 1, errs = []\<rparr>"
         and mid = "[]"
         and usb = "\<lparr>db = [john_doe], created_count = 1, errs = []\<rparr>" and j = 3,
       THEN conjunct2, THEN conjunct2, THEN conjunct2, THEN conjunct2, THEN conjunct2, THEN conjunct2, THEN conjunct1, THEN mp, OF h7]
  have v7: "(Inr (add_error
                  (if registration_exists (db \<lparr>db = [john_doe], created_count = 1, errs = []\<rparr>) (registration_number johnny)
                   then ''Line '' @ show_nat 3 @ '': User with registration ''
                          @ registration_number johnny @ '' already exists''
                   else ''Line '' @ show_nat 3 @ '': User with email '' @ email johnny
                          @ '' already exists'') \<lparr>db = [john_doe], created_count = 1, errs = []\<rparr>) :: crash + library_user session)
       = Inr \<lparr>db = [john_doe], created_count = 1,
          errs = [''Line 3: User with registration REG001 already exists'']\<rparr>"
    by code_simp
  note t7 = trans [OF c7 v7]
  have h8: "user_excel_decode plain user_expected_fields 0 john_doe_row = Some john_doe
      \<and> user_excel_decode plain user_expected_fields 2 jim_row = Some jim
      \<and> \<not> primary_missing user_expected_fields ''full_name'' ''registration_number'' jim_row
      \<and> (registration_number jim = registration_number john_doe \<or> email jim = email john_doe)
      \<and> user_excel_row accept_all plain user_expected_fields 0 john_doe_row (start []) = Inr \<lparr>db = [john_doe], created_count = 1, errs = []\<rparr>
      \<and> created_count \<lparr>db = [john_doe], created_count = 1, errs = []\<rparr> = created_count (start ([] :: library_user list)) + 1
      \<and> for_rows (user_excel_row accept_all plain user_expected_fields) (Suc 0) [jane_row] \<lparr>db = [john_doe], created_count = 1, errs = []\<rparr>
          = Inr \<lparr>db = [john_doe], created_count = 1, errs = []\<rparr>"
    by code_simp
  note c8 = C9_natural_keys_stay_unique
      [where rt = plain and cols = user_expected_fields and row_a = john_doe_row and user_a = john_doe and row_b = jim_row
         and user_b = jim and uaccepts = accept_all and i = 0 and us = "start []"
         and usa = "\<lparr>db = [john_doe], created_count = 1, errs = []\<rparr>"
         and xmid = "[jane_row]"
         and usb = "\<lparr>db = [john_doe], created_count = 1, errs = []\<rparr>" and j = 2,
       THEN conjunct2, THEN conjunct2, THEN conjunct2, THEN conjunct2, THEN conjunct2, THEN conjunct2, THEN conjunct2, THEN mp, OF h8]
  have v8: "(Inr (add_error
                  (if registration_exists (db \<lparr>db = [john_doe], created_count = 1, errs = []\<rparr>) (registration_number jim)
                   then ''Row '' @ show_nat (2 + 2) @ '': User with registration ''
                          @ registration_number jim @ '' already exists''
                   else ''Row '' @ show_nat (2 + 2) @ '': User with email '' @ email jim
                          @ '' already exists'') \<lparr>db = [john_doe], created_count = 1, errs = []\<rparr>) :: crash + library_user session)
       = Inr \<lparr>db = [john_doe], created_count = 1,
          errs = [''Row 4: User with email john@example.com already exists'']\<rparr>"
    by code_simp
  note t8 = trans [OF c8 v8]
  show ?thesis
    by (rule conjI [OF h1 conjI [OF c1 conjI [OF h2 conjI [OF c2 conjI [OF h3 conjI [OF c3 conjI [OF h4 conjI [OF c4 conjI [OF h5 conjI [OF t5 conjI [OF h6 conjI [OF t6 conjI [OF h7 conjI [OF t7 conjI [OF h8 t8]]]]]]]]]]]]]]])
qed

section \<open>Importing the same file again\<close>

text \<open>
  A loop that added no error has committed every candidate; run again on a collection
  that holds what the first run left, it adds one \<open>already exists\<close> error for each of them
  and nothing else.
\<close>

lemma rerun_from:
  assumes rb: "row_body body skip dec conflict accepts"
    and mono: "\<And>tbl ys r. conflict tbl r \<Longrightarrow> conflict (tbl @ ys) r"
    and self: "\<And>tbl r. conflict (tbl @ [r]) r"
  shows "for_rows body idx xs s = Inr s' \<Longrightarrow> errs s' = errs s \<Longrightarrow>
         (\<And>r. conflict (db s') r \<Longrightarrow> conflict (db t) r) \<Longrightarrow>
         \<exists>es. for_rows body idx xs t = Inr (t\<lparr>errs := errs t @ es\<rparr>)
            \<and> created_count s' = created_count s + length es
            \<and> (\<forall>e\<in>set es. already_exists_error e)"
proof (induction xs arbitrary: idx s t)
  case Nil
  then show ?case by simp
next
  case (Cons x xs)
  from for_rows_head [OF Cons.prems(1)] obtain s1 where b: "body idx x s = Inr s1"
    and rest: "for_rows body (Suc idx) xs s1 = Inr s'"
    by blast
  from loop_grows [OF rb rest] obtain es' new
    where g: "errs s' = errs s1 @ es'" "db s' = db s1 @ new" by blast
  from row_body_cases [OF rb b]
  consider (skipped) "skip x" "s1 = s"
    | (error) m where "s1 = add_error m s"
    | (kept) r where "\<not> skip x" "dec idx x = Some r"
        "s1 = s\<lparr>db := db s @ [r], created_count := created_count s + 1\<rparr>"
    by blast
  then show ?case
  proof cases
    case skipped
    from skipped(2) Cons.prems(2) have e: "errs s' = errs s1" by simp
    from Cons.IH [OF rest e Cons.prems(3)] obtain es
      where es: "for_rows body (Suc idx) xs t = Inr (t\<lparr>errs := errs t @ es\<rparr>)"
        "created_count s' = created_count s1 + length es"
        "\<forall>e\<in>set es. already_exists_error e"
      by blast
    from row_bodyD(1) [OF rb skipped(1), of idx t] es skipped(2) show ?thesis
      by (intro exI [of _ es]) simp
  next
    case error
    with g Cons.prems(2) show ?thesis by simp
  next
    case kept
    from kept(3) Cons.prems(2) have e: "errs s' = errs s1" by simp
    from kept(3) g(2) have "db s' = (db s @ [r]) @ new" by simp
    with mono [OF self [of "db s" r], of new] have "conflict (db s') r" by simp
    from Cons.prems(3) [OF this] have c: "conflict (db t) r" .
    from row_bodyD(3) [OF rb kept(1) kept(2) c] obtain m
      where m: "already_exists_error m" "body idx x t = Inr (add_error m t)" by blast
    have "\<And>r. conflict (db s') r \<Longrightarrow> conflict (db (add_error m t)) r"
      using Cons.prems(3) by simp
    from Cons.IH [OF rest e this] obtain es
      where es: "for_rows body (Suc idx) xs (add_error m t)
                   = Inr ((add_error m t)\<lparr>errs := errs (add_error m t) @ es\<rparr>)"
        "created_count s' = created_count s1 + length es"
        "\<forall>e\<in>set es. already_exists_error e"
      by blast
    have "(add_error m t)\<lparr>errs := errs (add_error m t) @ es\<rparr> = t\<lparr>errs := errs t @ (m # es)\<rparr>"
      by (simp add: add_error_def)
    with es m kept(3) show ?thesis
      by (intro exI [of _ "m # es"]) simp
  qed
qed

lemma rerun_loop:
  assumes rb: "row_body body skip dec conflict accepts"
    and mono: "\<And>tbl ys r. conflict tbl r \<Longrightarrow> conflict (tbl @ ys) r"
    and self: "\<And>tbl r. conflict (tbl @ [r]) r"
    and run: "for_rows body idx xs (start tbl) = Inr s"
    and clean: "errs s = []"
  shows "\<exists>es. for_rows body idx xs (start (db s))
                = Inr \<lparr>db = db s, created_count = 0, errs = es\<rparr>
            \<and> length es = created_count s
            \<and> (\<forall>e\<in>set es. already_exists_error e)"
proof -
  from clean have e: "errs s = errs (start tbl)" by (simp add: start_def)
  have "\<And>r. conflict (db s) r \<Longrightarrow> conflict (db (start (db s))) r"
    by (simp add: start_def)
  from rerun_from [OF rb mono self run e this] show ?thesis
    by (auto simp: start_def)
qed

lemma book_txt_rerun:
  assumes run: "book_process_txt_file accepts tbl file = Inr (tbl', out)"
    and clean: "errors out = []"
  shows "\<exists>es. book_process_txt_file accepts tbl' file
                = Inr (tbl', \<lparr>success = False, created = 0, errors = es\<rparr>)
            \<and> length es = created out
            \<and> (\<forall>e\<in>set es. already_exists_error e)"
proof -
  from run clean obtain content s where looped: "file = Some content" "\<not> length (file_lines content) < 2"
        "split_on CHR ''|'' (strip (hd (file_lines content))) = book_expected_fields"
        "for_rows (book_txt_row accepts) 2 (tl (file_lines content)) (start tbl) = Inr s"
        "tbl' = db s" "created out = created_count s" "errs s = []"
    by (auto simp: book_process_txt_file_def Let_def failed_def report_def
             split: option.splits if_splits sum.splits)
  from rerun_loop [OF book_txt_row_body book_conflict_mono book_conflict_self looped(4) looped(7)]
  obtain es where es: "for_rows (book_txt_row accepts) 2 (tl (file_lines content)) (start (db s))
                = Inr \<lparr>db = db s, created_count = 0, errs = es\<rparr>"
    "length es = created_count s" "\<forall>e\<in>set es. already_exists_error e"
    by blast
  with looped show ?thesis
    by (simp add: book_process_txt_file_def Let_def report_def)
qed

lemma book_excel_rerun:
  assumes run: "book_process_excel_file accepts rt tbl file = Inr (tbl', out)"
    and clean: "errors out = []"
  shows "\<exists>es. book_process_excel_file accepts rt tbl' file
                = Inr (tbl', \<lparr>success = False, created = 0, errors = es\<rparr>)
            \<and> length es = created out
            \<and> (\<forall>e\<in>set es. already_exists_error e)"
proof -
  from run clean obtain df s where looped: "file = Inr df" "columns df \<noteq> []"
        "missing_columns book_expected_fields (normalize_columns (columns df)) = []"
        "for_rows (book_excel_row accepts rt (normalize_columns (columns df))) 0 (rows df)
           (start tbl) = Inr s"
        "tbl' = db s" "created out = created_count s" "errs s = []"
    by (auto simp: book_process_excel_file_def Let_def failed_def report_def
             split: if_splits sum.splits)
  from rerun_loop [OF book_excel_row_body book_conflict_mono book_conflict_self
         looped(4) looped(7)]
  obtain es where es:
    "for_rows (book_excel_row accepts rt (normalize_columns (columns df))) 0 (rows df)
       (start (db s)) = Inr \<lparr>db = db s, created_count = 0, errs = es\<rparr>"
    "length es = created_count s" "\<forall>e\<in>set es. already_exists_error e"
    by blast
  with looped show ?thesis
    by (simp add: book_process_excel_file_def Let_def report_def)
qed

lemma user_txt_rerun:
  assumes run: "user_process_txt_file accepts tbl file = Inr (tbl', out)"
    and clean: "errors out = []"
  shows "\<exists>es. user_process_txt_file accepts tbl' file
                = Inr (tbl', \<lparr>success = False, created = 0, errors = es\<rparr>)
            \<and> length es = created out
            \<and> (\<forall>e\<in>set es. already_exists_error e)"
proof -
  from run clean obtain content s where looped: "file = Some content" "\<not> length (file_lines content) < 2"
        "split_on CHR ''|'' (strip (hd (file_lines content))) = user_expected_fields"
        "for_rows (user_txt_row accepts) 2 (tl (file_lines content)) (start tbl) = Inr s"
        "tbl' = db s" "created out = created_count s" "errs s = []"
    by (auto simp: user_process_txt_file_def Let_def failed_def report_def
             split: option.splits if_splits sum.splits)
  from rerun_loop [OF user_txt_row_body user_conflict_mono user_conflict_self looped(4) looped(7)]
  obtain es where es: "for_rows (user_txt_row accepts) 2 (tl (file_lines content)) (start (db s))
                = Inr \<lparr>db = db s, created_count = 0, errs = es\<rparr>"
    "length es = created_count s" "\<forall>e\<in>set es. already_exists_error e"
    by blast
  with looped show ?thesis
    by (simp add: user_process_txt_file_def Let_def report_def)
qed

lemma user_excel_rerun:
  assumes run: "user_process_excel_file accepts rt tbl file = Inr (tbl', out)"
    and clean: "errors out = []"
  shows "\<exists>es. user_process_excel_file accepts rt tbl' file
                = Inr (tbl', \<lparr>success = False, created = 0, errors = es\<rparr>)
            \<and> length es = created out
            \<and> (\<forall>e\<in>set es. already_exists_error e)"
proof -
  from run clean obtain df s where looped: "file = Inr df" "columns df \<noteq> []"
        "missing_columns user_expected_fields (normalize_columns (columns df)) = []"
        "for_rows (user_excel_row accepts rt (normalize_columns (columns df))) 0 (rows df)
           (start tbl) = Inr s"
        "tbl' = db s" "created out = created_count s" "errs s = []"
    by (auto simp: user_process_excel_file_def Let_def failed_def report_def
             split: if_splits sum.splits)
  from rerun_loop [OF user_excel_row_body user_conflict_mono user_conflict_self
         looped(4) looped(7)]
  obtain es where es:
    "for_rows (user_excel_row accepts rt (normalize_columns (columns df))) 0 (rows df)
       (start (db s)) = Inr \<lparr>db = db s, created_count = 0, errs = es\<rparr>"
    "length es = created_count s" "\<forall>e\<in>set es. already_exists_error e"
    by blast
  with looped show ?thesis
    by (simp add: user_process_excel_file_def Let_def report_def)
qed

text \<open>
  C7. When an import returns without any error, so that every candidate row of the file
  was committed, importing the same file again into the resulting collection returns
  normally, leaves the collection as it is and reports \<open>success = False\<close> and
  \<open>created = 0\<close>, with one \<open>already exists\<close> error for each row the first import
  created. For books and for users, for text files and for spreadsheets.
\<close>

theorem C7_second_import_creates_nothing:
  "(book_process_txt_file accepts tbl tfile = Inr (tbl', out) \<and> errors out = []
    \<longrightarrow> (\<exists>es. book_process_txt_file accepts tbl' tfile
                 = Inr (tbl', \<lparr>success = False, created = 0, errors = es\<rparr>)
             \<and> length es = created out
             \<and> (\<forall>e\<in>set es. already_exists_error e)))
   \<and> (user_process_txt_file uaccepts utbl ufile = Inr (utbl', uout) \<and> errors uout = []
    \<longrightarrow> (\<exists>es. user_process_txt_file uaccepts utbl' ufile
                 = Inr (utbl', \<lparr>success = False, created = 0, errors = es\<rparr>)
             \<and> length es = created uout
             \<and> (\<forall>e\<in>set es. already_exists_error e)))
   \<and> (book_process_excel_file xaccepts xrt xtbl xfile = Inr (xtbl', xout) \<and> errors xout = []
    \<longrightarrow> (\<exists>es. book_process_excel_file xaccepts xrt xtbl' xfile
                 = Inr (xtbl', \<lparr>success = False, created = 0, errors = es\<rparr>)
             \<and> length es = created xout
             \<and> (\<forall>e\<in>set es. already_exists_error e)))
   \<and> (user_process_excel_file yaccepts yrt ytbl yfile = Inr (ytbl', yout) \<and> errors yout = []
    \<longrightarrow> (\<exists>es. user_process_excel_file yaccepts yrt ytbl' yfile
                 = Inr (ytbl', \<lparr>success = False, created = 0, errors = es\<rparr>)
             \<and> length es = created yout
             \<and> (\<forall>e\<in>set es. already_exists_error e)))"
  using book_txt_rerun [of accepts tbl tfile tbl' out]
    user_txt_rerun [of uaccepts utbl ufile utbl' uout]
    book_excel_rerun [of xaccepts xrt xtbl xfile xtbl' xout]
    user_excel_rerun [of yaccepts yrt ytbl yfile ytbl' yout]
  by blast

theorem C7_second_import_creates_nothing_witness:
  "(book_process_txt_file accept_all [] (Some one_book_txt) = Inr ([clean_code], \<lparr>success = True, created = 1, errors = []\<rparr>)
     \<and> errors \<lparr>success = True, created = 1, errors = []\<rparr> = [])
   \<and> (\<exists>es. book_process_txt_file accept_all [clean_code] (Some one_book_txt)
                 = Inr ([clean_code], \<lparr>success = False, created = 0, errors = es\<rparr>)
             \<and> length es = created \<lparr>success = True, created = 1, errors = []\<rparr>
             \<and> (\<forall>e\<in>set es. already_exists_error e))
   \<and> (book_process_txt_file accept_all [clean_code] (Some one_book_txt)
       = Inr ([clean_code], \<lparr>success = False, created = 0,
                 errors = [''Line 2: Book with ISBN 9780132350884 already exists'']\<rparr>))
   \<and> (user_process_txt_file accept_all [] (Some one_user_txt) = Inr ([john_doe], \<lparr>success = True, created = 1, errors = []\<rparr>)
     \<and> errors \<lparr>success = True, created = 1, errors = []\<rparr> = [])
   \<and> (\<exists>es. user_process_txt_file accept_all [john_doe] (Some one_user_txt)
                 = Inr ([john_doe], \<lparr>success = False, created = 0, errors = es\<rparr>)
             \<and> length es = created \<lparr>success = True, created = 1, errors = []\<rparr>
             \<and> (\<forall>e\<in>set es. already_exists_error e))
   \<and> (user_process_txt_file accept_all [john_doe] (Some one_user_txt)
       = Inr ([john_doe], \<lparr>success = False, created = 0,
                 errors = [''Line 2: User with registration REG001 already exists'']\<rparr>))
   \<and> (book_process_excel_file accept_all plain [] (Inr one_book_frame) = Inr ([clean_code], \<lparr>success = True, created = 1, errors = []\<rparr>)
     \<and> errors \<lparr>success = True, created = 1, errors = []\<rparr> = [])
   \<and> (\<exists>es. book_process_excel_file accept_all plain [clean_code] (Inr one_book_frame)
                 = Inr ([clean_code], \<lparr>success = False, created = 0, errors = es\<rparr>)
             \<and> length es = created \<lparr>success = True, created = 1, errors = []\<rparr>
             \<and> (\<forall>e\<in>set es. already_exists_error e))
   \<and> (book_process_excel_file accept_all plain [clean_code] (Inr one_book_frame)
       = Inr ([clean_code], \<lparr>success = False, created = 0,
                 errors = [''Row 2: Book with ISBN 9780132350884 already exists'']\<rparr>))
   \<and> (user_process_excel_file accept_all plain [] (Inr one_user_frame) = Inr ([john_doe], \<lparr>success = True, created = 1, errors = []\<rparr>)
     \<and> errors \<lparr>success = True, created = 1, errors = []\<rparr> = [])
   \<and> (\<exists>es. user_process_excel_file accept_all plain [john_doe] (Inr one_user_frame)
                 = Inr ([john_doe], \<lparr>success = False, created = 0, errors = es\<rparr>)
             \<and> length es = created \<lparr>success = True, created = 1, errors = []\<rparr>
             \<and> (\<forall>e\<in>set es. already_exists_error e))
   \<and> (user_process_excel_file accept_all plain [john_doe] (Inr one_user_frame)
       = Inr ([john_doe], \<lparr>success = False, created = 0,
                 errors = [''Row 2: User with registration REG001 already exists'']\<rparr>))"
proof -
  have h1: "book_process_txt_file accept_all [] (Some one_book_txt) = Inr ([clean_code], \<lparr>success = True, created = 1, errors = []\<rparr>)
     \<and> errors \<lparr>success = True, created = 1, errors = []\<rparr> = []"
    by code_simp
  have e1: "book_process_txt_file accept_all [clean_code] (Some one_book_txt)
       = Inr ([clean_code], \<lparr>success = False, created = 0,
                 errors = [''Line 2: Book with ISBN 9780132350884 already exists'']\<rparr>)"
    by code_simp
  have h2: "user_process_txt_file accept_all [] (Some one_user_txt) = Inr ([john_doe], \<lparr>success = True, created = 1, errors = []\<rparr>)
     \<and> errors \<lparr>success = True, created = 1, errors = []\<rparr> = []"
    by code_simp
  have e2: "user_process_txt_file accept_all [john_doe] (Some one_user_txt)
       = Inr ([john_doe], \<lparr>success = False, created = 0,
                 errors = [''Line 2: User with registration REG001 already exists'']\<rparr>)"
    by code_simp
  have h3: "book_process_excel_file accept_all plain [] (Inr one_book_frame) = Inr ([clean_code], \<lparr>success = True, created = 1, errors = []\<rparr>)
     \<and> errors \<lparr>success = True, created = 1, errors = []\<rparr> = []"
    by code_simp
  have e3: "book_process_excel_file accept_all plain [clean_code] (Inr one_book_frame)
       = Inr ([clean_code], \<lparr>success = False, created = 0,
                 errors = [''Row 2: Book with ISBN 9780132350884 already exists'']\<rparr>)"
    by code_simp
  have h4: "user_process_excel_file accept_all plain [] (Inr one_user_frame) = Inr ([john_doe], \<lparr>success = True, created = 1, errors = []\<rparr>)
     \<and> errors \<lparr>success = True, created = 1, errors = []\<rparr> = []"
    by code_simp
  have e4: "user_process_excel_file accept_all plain [john_doe] (Inr one_user_frame)
       = Inr ([john_doe], \<lparr>success = False, created = 0,
                 errors = [''Row 2: User with registration REG001 already exists'']\<rparr>)"
    by code_simp
  note inst = C7_second_import_creates_nothing
      [where tbl = "[]" and accepts = accept_all and tfile = "Some one_book_txt" and tbl' = "[clean_code]"
         and out = "\<lparr>success = True, created = 1, errors = []\<rparr>"
         and utbl = "[]" and uaccepts = accept_all and ufile = "Some one_user_txt" and utbl' = "[john_doe]"
         and uout = "\<lparr>success = True, created = 1, errors = []\<rparr>"
         and xtbl = "[]" and xaccepts = accept_all and xrt = plain and xfile = "Inr one_book_frame" and xtbl' = "[clean_code]"
         and xout = "\<lparr>success = True, created = 1, errors = []\<rparr>"
         and ytbl = "[]" and yaccepts = accept_all and yrt = plain and yfile = "Inr one_user_frame" and ytbl' = "[john_doe]"
         and yout = "\<lparr>success = True, created = 1, errors = []\<rparr>"]
  note c1 = inst [THEN conjunct1, THEN mp, OF h1]
  note c2 = inst [THEN conjunct2, THEN conjunct1, THEN mp, OF h2]
  note c3 = inst [THEN conjunct2, THEN conjunct2, THEN conjunct1, THEN mp, OF h3]
  note c4 = inst [THEN conjunct2, THEN conjunct2, THEN conjunct2, THEN mp, OF h4]
  show ?thesis
    by (rule conjI [OF h1 conjI [OF c1 conjI [OF e1 conjI [OF h2 conjI [OF c2 conjI [OF e2 conjI [OF h3 conjI [OF c3 conjI [OF e3 conjI [OF h4 conjI [OF c4 e4]]]]]]]]]]])
qed

end
